theory Spec2Isabelle
  imports Complex_Main
begin

section \<open>JavaScript numbers\<close>

text \<open>
  The radar transform computes with JavaScript numbers, that is, IEEE 754 doubles. A
  number is modelled as a real (\<open>Fin\<close>, where \<open>Fin 0\<close> is positive zero), negative
  zero, one of the two infinities, or \<open>NaN\<close>. The special values and the sign of a zero
  follow IEEE 754 as JavaScript exposes it: a division by zero does not fail but yields an
  infinity or \<open>NaN\<close>, \<open>0 * -1\<close> is \<open>-0\<close>, and \<open>Math.atan2(0, -0)\<close> is \<open>\<pi>\<close>
  where \<open>Math.atan2(0, 0)\<close> is \<open>0\<close>. Arithmetic on the other finite values is
  idealised as exact real arithmetic, without rounding, overflow or underflow; so
  \<open>Math.sin\<close> of the model's \<open>\<pi>\<close> is \<open>0\<close>, where the double nearest to \<open>\<pi>\<close>
  has the sine \<open>1.2246e-16\<close>.
\<close>

datatype jsnum = Fin real | NegZero | PosInf | NegInf | NaN

text \<open>\<open>Number.isFinite\<close>, the real value of a finite number, and the sign bit.\<close>

fun isFinite :: "jsnum \<Rightarrow> bool" where
  "isFinite (Fin a) = True"
| "isFinite NegZero = True"
| "isFinite a = False"

fun num_val :: "jsnum \<Rightarrow> real" where
  "num_val (Fin a) = a"
| "num_val a = 0"

fun negative :: "jsnum \<Rightarrow> bool" where
  "negative (Fin a) = (a < 0)"
| "negative NegZero = True"
| "negative NegInf = True"
| "negative a = False"

text \<open>
  The finite number with real value \<open>r\<close>; the flag gives the sign of the zero when
  \<open>r\<close> is \<open>0\<close>. The infinity of a given sign.
\<close>

definition mk_finite :: "bool \<Rightarrow> real \<Rightarrow> jsnum" where
  "mk_finite neg r = (if r = 0 \<and> neg then NegZero else Fin r)"

definition signed_inf :: "bool \<Rightarrow> jsnum" where
  "signed_inf positive = (if positive then PosInf else NegInf)"

fun js_neg :: "jsnum \<Rightarrow> jsnum" where
  "js_neg (Fin a) = mk_finite True (- a)"
| "js_neg NegZero = Fin 0"
| "js_neg PosInf = NegInf"
| "js_neg NegInf = PosInf"
| "js_neg NaN = NaN"

text \<open>
  Addition: a zero sum is negative only when both operands are negative zeros, and
  opposite infinities give \<open>NaN\<close>. Subtraction adds the negated operand.
\<close>

definition js_add :: "jsnum \<Rightarrow> jsnum \<Rightarrow> jsnum" where
  "js_add a b =
     (if a = NaN \<or> b = NaN then NaN
      else if isFinite a \<and> isFinite b
        then mk_finite (a = NegZero \<and> b = NegZero) (num_val a + num_val b)
      else if isFinite a then b
      else if isFinite b then a
      else if a = b then a
      else NaN)"

definition js_sub :: "jsnum \<Rightarrow> jsnum \<Rightarrow> jsnum" where
  "js_sub a b = js_add a (js_neg b)"

text \<open>
  Multiplication and division: the sign of the result is the exclusive or of the signs
  of the operands, also for a zero and for an infinity; zero times infinity, zero by
  zero and infinity by infinity are \<open>NaN\<close>.
\<close>

definition js_mul :: "jsnum \<Rightarrow> jsnum \<Rightarrow> jsnum" where
  "js_mul a b =
     (if a = NaN \<or> b = NaN then NaN
      else if isFinite a \<and> isFinite b
        then mk_finite (negative a \<noteq> negative b) (num_val a * num_val b)
      else if (isFinite a \<and> num_val a = 0) \<or> (isFinite b \<and> num_val b = 0) then NaN
      else signed_inf (negative a = negative b))"

definition js_div :: "jsnum \<Rightarrow> jsnum \<Rightarrow> jsnum" where
  "js_div a b =
     (if a = NaN \<or> b = NaN then NaN
      else if isFinite a \<and> isFinite b then
        (if num_val b \<noteq> 0 then mk_finite (negative a \<noteq> negative b) (num_val a / num_val b)
         else if num_val a = 0 then NaN
         else signed_inf (negative a = negative b))
      else if isFinite a then mk_finite (negative a \<noteq> negative b) 0
      else if isFinite b then signed_inf (negative a = negative b)
      else NaN)"

fun js_sqrt :: "jsnum \<Rightarrow> jsnum" where
  "js_sqrt (Fin a) = (if 0 \<le> a then Fin (sqrt a) else NaN)"
| "js_sqrt NegZero = NegZero"
| "js_sqrt PosInf = PosInf"
| "js_sqrt NegInf = NaN"
| "js_sqrt NaN = NaN"

text \<open>
  \<open>Math.min\<close> of two numbers: \<open>NaN\<close> as soon as one of them is, and negative zero
  is below positive zero.
\<close>

fun js_min :: "jsnum \<Rightarrow> jsnum \<Rightarrow> jsnum" where
  "js_min NaN b = NaN"
| "js_min a NaN = NaN"
| "js_min NegInf b = NegInf"
| "js_min a NegInf = NegInf"
| "js_min PosInf b = b"
| "js_min a PosInf = a"
| "js_min (Fin a) (Fin b) = Fin (min a b)"
| "js_min NegZero (Fin b) = (if b < 0 then Fin b else NegZero)"
| "js_min (Fin a) NegZero = (if a < 0 then Fin a else NegZero)"
| "js_min NegZero NegZero = NegZero"

fun js_sin :: "jsnum \<Rightarrow> jsnum" where
  "js_sin (Fin a) = Fin (sin a)"
| "js_sin NegZero = NegZero"
| "js_sin a = NaN"

fun js_cos :: "jsnum \<Rightarrow> jsnum" where
  "js_cos (Fin a) = Fin (cos a)"
| "js_cos NegZero = Fin 1"
| "js_cos a = NaN"

text \<open>
  The two-argument arctangent on the reals: the angle of the point \<open>(x, y)\<close> in
  \<open>(-\<pi>, \<pi>]\<close>.
\<close>

definition atan2 :: "real \<Rightarrow> real \<Rightarrow> real" where
  "atan2 y x =
     (if 0 < x then arctan (y / x)
      else if x < 0 then (if 0 \<le> y then arctan (y / x) + pi else arctan (y / x) - pi)
      else if 0 < y then pi / 2
      else if y < 0 then - (pi / 2)
      else 0)"

text \<open>
  \<open>Math.atan2(y, x)\<close>. When \<open>y\<close> is a zero the result is a zero or \<open>\<pi>\<close>, by the sign
  of \<open>x\<close> (also of a zero \<open>x\<close>), and carries the sign of \<open>y\<close>.
\<close>

definition js_atan2 :: "jsnum \<Rightarrow> jsnum \<Rightarrow> jsnum" where
  "js_atan2 y x =
     (if y = NaN \<or> x = NaN then NaN
      else if isFinite y \<and> isFinite x then
        (if num_val y = 0 then
           (if negative x then (if negative y then Fin (- pi) else Fin pi)
            else mk_finite (negative y) 0)
         else Fin (atan2 (num_val y) (num_val x)))
      else if isFinite y then
        (if x = PosInf then mk_finite (negative y) 0
         else if negative y then Fin (- pi) else Fin pi)
      else if isFinite x then (if negative y then Fin (- (pi / 2)) else Fin (pi / 2))
      else if x = PosInf then (if negative y then Fin (- (pi / 4)) else Fin (pi / 4))
      else (if negative y then Fin (- (3 * pi / 4)) else Fin (3 * pi / 4)))"

text \<open>The comparison \<open>a > b\<close>: false as soon as one operand is \<open>NaN\<close>; the two
  zeros are equal.\<close>

definition js_gt :: "jsnum \<Rightarrow> jsnum \<Rightarrow> bool" where
  "js_gt a b =
     (if a = NaN \<or> b = NaN then False
      else if isFinite a \<and> isFinite b then num_val b < num_val a
      else if a = PosInf then b \<noteq> PosInf
      else if b = NegInf then a \<noteq> NegInf
      else False)"

text \<open>
  The comparison \<open>a === b\<close> of two numbers: \<open>NaN\<close> equals nothing, and the two
  zeros are equal.
\<close>

definition js_eq :: "jsnum \<Rightarrow> jsnum \<Rightarrow> bool" where
  "js_eq a b =
     (a \<noteq> NaN \<and> b \<noteq> NaN \<and> (a = b \<or> (isFinite a \<and> isFinite b \<and> num_val a = num_val b)))"

text \<open>
  Reading index \<open>i\<close> of a JavaScript array of numbers. Out of range the read gives
  \<open>undefined\<close>, which every arithmetic operation and \<open>Math\<close> function of the
  transform turns into \<open>NaN\<close> and which compares false with \<open>> 0\<close>, as
  \<open>NaN\<close> does.
\<close>

definition js_index :: "jsnum list \<Rightarrow> nat \<Rightarrow> jsnum" where
  "js_index xs i = (if i < length xs then xs ! i else NaN)"

section \<open>Objects\<close>

datatype js_value =
    JNumber jsnum
  | JString string
  | JBoolean bool
  | JArray "jsnum list"

datatype js_error = TypeError

text \<open>
  A contact is a JavaScript object. Its \<open>position\<close> property is the array the
  transform reads (\<open>None\<close> when the object has no such property, which makes
  \<open>contact.position[0]\<close> throw a \<open>TypeError\<close>); \<open>props\<close> holds every other own
  property by name: \<open>id\<close>, \<open>type\<close>, \<open>selected\<close>, and, in a contact
  that was returned by the transform, the properties the transform wrote.
\<close>

record contact =
  position :: "jsnum list option"
  props :: "string \<rightharpoonup> js_value"

text \<open>
  The options object. A field is \<open>None\<close> when the property is \<open>undefined\<close>, in
  which case the destructuring pattern of the transform supplies its default.
\<close>

record options =
  playerPosition :: "jsnum list option"
  playerQuaternion :: "jsnum list option"
  maxRange :: "jsnum option"
  radarRadius :: "jsnum option"
  shipRelative :: "bool option"

section \<open>The two three.js operations the transform calls\<close>

text \<open>
  three.js is a library outside the repository. \<open>new THREE.Quaternion(x, y, z, w)\<close> has
  the parameter defaults \<open>0, 0, 0, 1\<close>, which apply to the arguments a short
  \<open>playerQuaternion\<close> array leaves out. \<open>invert()\<close> is the conjugate: it multiplies
  \<open>x\<close>, \<open>y\<close> and \<open>z\<close> by \<open>-1\<close> and does not normalise.
  \<open>Vector3.applyQuaternion\<close> is the formula of the current three.js releases,
  \<open>v + w t + q \<times> t\<close> with \<open>t = 2 (q \<times> v)\<close>. Older releases multiply
  \<open>q v q\<^sup>-\<^sup>1\<close> out term by term; both formulas are polynomials in the components.
  The inverted identity quaternion is \<open>(-0, -0, -0, 1)\<close>: the rotation by it leaves a
  finite component other than negative zero as it is, can turn a negative zero into a
  positive one, and makes \<open>NaN\<close> of an infinite component.
\<close>

record quaternion =
  qx :: jsnum
  qy :: jsnum
  qz :: jsnum
  qw :: jsnum

definition Quaternion :: "jsnum list \<Rightarrow> quaternion" where
  "Quaternion args =
     \<lparr> qx = (if 0 < length args then args ! 0 else Fin 0),
       qy = (if 1 < length args then args ! 1 else Fin 0),
       qz = (if 2 < length args then args ! 2 else Fin 0),
       qw = (if 3 < length args then args ! 3 else Fin 1) \<rparr>"

definition invert :: "quaternion \<Rightarrow> quaternion" where
  "invert q =
     \<lparr> qx = js_mul (qx q) (Fin (- 1)),
       qy = js_mul (qy q) (Fin (- 1)),
       qz = js_mul (qz q) (Fin (- 1)),
       qw = qw q \<rparr>"

definition applyQuaternion :: "jsnum \<times> jsnum \<times> jsnum \<Rightarrow> quaternion \<Rightarrow> jsnum \<times> jsnum \<times> jsnum" where
  "applyQuaternion v q =
     (case v of (vx, vy, vz) \<Rightarrow>
        let tx = js_mul (Fin 2) (js_sub (js_mul (qy q) vz) (js_mul (qz q) vy));
            ty = js_mul (Fin 2) (js_sub (js_mul (qz q) vx) (js_mul (qx q) vz));
            tz = js_mul (Fin 2) (js_sub (js_mul (qx q) vy) (js_mul (qy q) vx))
        in (js_sub (js_add (js_add vx (js_mul (qw q) tx)) (js_mul (qy q) tz)) (js_mul (qz q) ty),
            js_sub (js_add (js_add vy (js_mul (qw q) ty)) (js_mul (qz q) tx)) (js_mul (qx q) tz),
            js_sub (js_add (js_add vz (js_mul (qw q) tz)) (js_mul (qx q) ty)) (js_mul (qy q) tx)))"

section \<open>transformToRadarSpace of EliteRadar3D.jsx\<close>

text \<open>The destructuring of \<open>options\<close> with its defaults.\<close>

definition the_playerPosition :: "options \<Rightarrow> jsnum list" where
  "the_playerPosition opts =
     (case playerPosition opts of None \<Rightarrow> [Fin 0, Fin 0, Fin 0] | Some p \<Rightarrow> p)"

definition the_playerQuaternion :: "options \<Rightarrow> jsnum list" where
  "the_playerQuaternion opts =
     (case playerQuaternion opts of None \<Rightarrow> [Fin 0, Fin 0, Fin 0, Fin 1] | Some q \<Rightarrow> q)"

definition the_maxRange :: "options \<Rightarrow> jsnum" where
  "the_maxRange opts = (case maxRange opts of None \<Rightarrow> Fin 5000 | Some m \<Rightarrow> m)"

definition the_radarRadius :: "options \<Rightarrow> jsnum" where
  "the_radarRadius opts = (case radarRadius opts of None \<Rightarrow> Fin 1 | Some r \<Rightarrow> r)"

definition the_shipRelative :: "options \<Rightarrow> bool" where
  "the_shipRelative opts = (case shipRelative opts of None \<Rightarrow> True | Some b \<Rightarrow> b)"

text \<open>
  The relative position \<open>(relX, relY, relZ)\<close>: the contact position minus the player
  position, rotated by the inverted player quaternion when \<open>shipRelative\<close> is set.
\<close>

definition relativePosition :: "jsnum list \<Rightarrow> options \<Rightarrow> jsnum \<times> jsnum \<times> jsnum" where
  "relativePosition pos opts =
     (let relX = js_sub (js_index pos 0) (js_index (the_playerPosition opts) 0);
          relY = js_sub (js_index pos 1) (js_index (the_playerPosition opts) 1);
          relZ = js_sub (js_index pos 2) (js_index (the_playerPosition opts) 2)
      in if the_shipRelative opts
         then applyQuaternion (relX, relY, relZ) (invert (Quaternion (the_playerQuaternion opts)))
         else (relX, relY, relZ))"

text \<open>The local constants of the function body, as functions of the relative position.\<close>

definition distance :: "jsnum \<times> jsnum \<times> jsnum \<Rightarrow> jsnum" where
  "distance rel =
     (case rel of (relX, relY, relZ) \<Rightarrow>
        js_sqrt (js_add (js_add (js_mul relX relX) (js_mul relY relY)) (js_mul relZ relZ)))"

definition normalizedDist :: "jsnum \<times> jsnum \<times> jsnum \<Rightarrow> jsnum \<Rightarrow> jsnum" where
  "normalizedDist rel maxRange' = js_min (js_div (distance rel) maxRange') (Fin 1)"

definition horizontalDist :: "jsnum \<times> jsnum \<times> jsnum \<Rightarrow> jsnum" where
  "horizontalDist rel =
     (case rel of (relX, relY, relZ) \<Rightarrow> js_sqrt (js_add (js_mul relX relX) (js_mul relZ relZ)))"

definition theta :: "jsnum \<times> jsnum \<times> jsnum \<Rightarrow> jsnum" where
  "theta rel = (case rel of (relX, relY, relZ) \<Rightarrow> js_atan2 relX relZ)"

definition phi :: "jsnum \<times> jsnum \<times> jsnum \<Rightarrow> jsnum" where
  "phi rel = (case rel of (relX, relY, relZ) \<Rightarrow> js_atan2 relY (horizontalDist rel))"

definition transformToRadarSpace :: "contact \<Rightarrow> options \<Rightarrow> js_error + contact" where
  "transformToRadarSpace c opts =
     (case position c of
        None \<Rightarrow> Inl TypeError
      | Some pos \<Rightarrow>
          let rel = relativePosition pos opts;
              relY = fst (snd rel);
              normalizedDist' = normalizedDist rel (the_maxRange opts);
              radarHorizontalDist = js_mul normalizedDist' (the_radarRadius opts);
              radarX = js_mul radarHorizontalDist (js_sin (theta rel));
              radarZ = js_mul radarHorizontalDist (js_cos (theta rel));
              radarY = js_mul (js_mul (js_mul normalizedDist' (js_sin (phi rel)))
                                      (the_radarRadius opts)) (Fin (1 / 2))
          in Inr (c\<lparr> props := (props c)
                   (''radarPosition'' \<mapsto> JArray [radarX, radarY, radarZ],
                    ''basePosition'' \<mapsto> JArray [radarX, Fin 0, radarZ],
                    ''normalizedDistance'' \<mapsto> JNumber normalizedDist',
                    ''isAbove'' \<mapsto> JBoolean (js_gt relY (Fin 0))) \<rparr>))"

section \<open>transformToRadarSpace of EliteRadarDemo.jsx\<close>

text \<open>
  The demo's copy reads only \<open>maxRange\<close> and \<open>radarRadius\<close> from the options, takes
  the contact position as the relative position, and writes no \<open>isAbove\<close>.
  Destructuring a missing \<open>position\<close> throws a \<open>TypeError\<close>.
\<close>

definition demo_transformToRadarSpace :: "contact \<Rightarrow> options \<Rightarrow> js_error + contact" where
  "demo_transformToRadarSpace c opts =
     (case position c of
        None \<Rightarrow> Inl TypeError
      | Some pos \<Rightarrow>
          let maxRange' = (case maxRange opts of None \<Rightarrow> Fin 5000 | Some m \<Rightarrow> m);
              radarRadius' = (case radarRadius opts of None \<Rightarrow> Fin 1 | Some r \<Rightarrow> r);
              relX = js_index pos 0;
              relY = js_index pos 1;
              relZ = js_index pos 2;
              distance' = js_sqrt (js_add (js_add (js_mul relX relX) (js_mul relY relY))
                                          (js_mul relZ relZ));
              normalizedDist' = js_min (js_div distance' maxRange') (Fin 1);
              horizontalDist' = js_sqrt (js_add (js_mul relX relX) (js_mul relZ relZ));
              theta' = js_atan2 relX relZ;
              phi' = js_atan2 relY horizontalDist';
              radarHorizontalDist = js_mul normalizedDist' radarRadius';
              radarX = js_mul radarHorizontalDist (js_sin theta');
              radarZ = js_mul radarHorizontalDist (js_cos theta');
              radarY = js_mul (js_mul (js_mul normalizedDist' (js_sin phi')) radarRadius')
                              (Fin (1 / 2))
          in Inr (c\<lparr> props := (props c)
                   (''radarPosition'' \<mapsto> JArray [radarX, radarY, radarZ],
                    ''basePosition'' \<mapsto> JArray [radarX, Fin 0, radarZ],
                    ''normalizedDistance'' \<mapsto> JNumber normalizedDist') \<rparr>))"

section \<open>The heading indicator\<close>

text \<open>
  \<open>HeadingIndicator\<close> draws the ship's forward direction as a line between two
  points of the display, from the centre to \<open>[0, 0.002, -radius * 0.15]\<close>: forward
  is the negative z axis of the display.
\<close>

definition HeadingIndicator :: "jsnum \<Rightarrow> jsnum list \<times> jsnum list" where
  "HeadingIndicator radius =
     ([Fin 0, Fin (2 / 1000), Fin 0],
      [Fin 0, Fin (2 / 1000), js_mul (js_neg radius) (Fin (15 / 100))])"

section \<open>Sample data\<close>

text \<open>
  Two entries of \<open>demoContacts\<close> and the options object \<open>RadarScene\<close> builds for
  the call, with the player at the origin, the identity quaternion and \<open>shipRelative\<close>
  set, as the exported component passes them.
\<close>

definition hostile_1 :: contact where
  "hostile_1 = \<lparr> position = Some [Fin 2000, Fin 800, Fin 1500],
     props = [''id'' \<mapsto> JString ''hostile-1'', ''type'' \<mapsto> JString ''hostile''] \<rparr>"

definition station_1 :: contact where
  "station_1 = \<lparr> position = Some [Fin 0, Fin 0, Fin (- 4000)],
     props = [''id'' \<mapsto> JString ''station-1'', ''type'' \<mapsto> JString ''station'',
              ''selected'' \<mapsto> JBoolean True] \<rparr>"

definition sceneOptions :: "jsnum \<Rightarrow> jsnum \<Rightarrow> options" where
  "sceneOptions m R = \<lparr> playerPosition = Some [Fin 0, Fin 0, Fin 0],
     playerQuaternion = Some [Fin 0, Fin 0, Fin 0, Fin 1],
     maxRange = Some m, radarRadius = Some R, shipRelative = Some True \<rparr>"

section \<open>Arithmetic on finite numbers\<close>

text \<open>
  On finite operands the operations compute the real result; only the sign of a zero
  result needs care. A sum or difference whose left operand is not a negative zero is
  never a negative zero.
\<close>

lemma not_finite_simps [simp]: "isFinite a \<Longrightarrow> a \<noteq> NaN" "isFinite a \<Longrightarrow> a \<noteq> PosInf"
  "isFinite a \<Longrightarrow> a \<noteq> NegInf"
  by auto

lemma mk_finite_simps [simp]:
  "isFinite (mk_finite n r)" "num_val (mk_finite n r) = r" "mk_finite False r = Fin r"
  "mk_finite n r \<noteq> NaN" "r \<noteq> 0 \<Longrightarrow> mk_finite n r = Fin r"
  "negative (mk_finite n r) = (r < 0 \<or> (r = 0 \<and> n))"
  by (auto simp add: mk_finite_def)

lemma js_neg_finite [simp]:
  "isFinite a \<Longrightarrow> isFinite (js_neg a)" "isFinite a \<Longrightarrow> num_val (js_neg a) = - num_val a"
  by (cases a; simp)+

lemma js_add_finite [simp]:
  assumes "isFinite a" and "isFinite b"
  shows "isFinite (js_add a b)" and "num_val (js_add a b) = num_val a + num_val b"
  using assms by (simp_all add: js_add_def)

lemma js_sub_finite [simp]:
  assumes "isFinite a" and "isFinite b"
  shows "isFinite (js_sub a b)" and "num_val (js_sub a b) = num_val a - num_val b"
  using assms by (simp_all add: js_sub_def)

lemma js_mul_finite [simp]:
  assumes "isFinite a" and "isFinite b"
  shows "isFinite (js_mul a b)" and "num_val (js_mul a b) = num_val a * num_val b"
  using assms by (simp_all add: js_mul_def)

lemma js_add_Fin_left: "isFinite b \<Longrightarrow> js_add (Fin a) b = Fin (a + num_val b)"
  by (simp add: js_add_def)

lemma js_sub_Fin_left: "isFinite b \<Longrightarrow> js_sub (Fin a) b = Fin (a - num_val b)"
  by (simp add: js_sub_def js_add_Fin_left)

lemma js_sub_Fin [simp]: "js_sub (Fin a) (Fin b) = Fin (a - b)"
  by (simp add: js_sub_Fin_left)

lemma js_sub_self: "isFinite a \<Longrightarrow> js_sub a a = Fin 0"
  by (cases a) (simp_all add: js_sub_def js_add_def mk_finite_def)

lemma js_sub_zero [simp]: "js_sub a (Fin 0) = a"
  by (cases a) (simp_all add: js_sub_def js_add_def mk_finite_def)

lemma js_mul_self: "isFinite a \<Longrightarrow> js_mul a a = Fin (num_val a * num_val a)"
  by (simp add: js_mul_def)

lemma js_mul_Fin_nonneg: "0 \<le> a \<Longrightarrow> 0 \<le> b \<Longrightarrow> js_mul (Fin a) (Fin b) = Fin (a * b)"
  by (simp add: js_mul_def)

lemma js_mul_one [simp]: "js_mul (Fin 1) (Fin b) = Fin b" "js_mul (Fin b) (Fin 1) = Fin b"
  by (simp_all add: js_mul_def mk_finite_def)

lemma js_div_Fin_nonneg: "0 \<le> a \<Longrightarrow> 0 < m \<Longrightarrow> js_div (Fin a) (Fin m) = Fin (a / m)"
  by (simp add: js_div_def)

lemma js_sin_finite [simp]:
  "isFinite a \<Longrightarrow> isFinite (js_sin a)" "isFinite a \<Longrightarrow> num_val (js_sin a) = sin (num_val a)"
  by (cases a; simp)+

lemma js_cos_finite: "isFinite a \<Longrightarrow> js_cos a = Fin (cos (num_val a))"
  by (cases a) simp_all

lemma js_atan2_finite [simp]: "isFinite y \<Longrightarrow> isFinite x \<Longrightarrow> isFinite (js_atan2 y x)"
  by (simp add: js_atan2_def)

lemma js_eq_Fin: "js_eq a (Fin r) \<longleftrightarrow> isFinite a \<and> num_val a = r"
  by (cases a) (auto simp add: js_eq_def)

lemma js_NaN [simp]:
  "js_add NaN b = NaN" "js_add a NaN = NaN" "js_mul NaN b = NaN" "js_mul a NaN = NaN"
  "js_div NaN b = NaN" "js_div a NaN = NaN" "js_atan2 NaN b = NaN" "js_atan2 a NaN = NaN"
  "js_sub NaN b = NaN" "\<not> js_gt NaN b" "\<not> js_gt a NaN"
  by (simp_all add: js_add_def js_mul_def js_div_def js_atan2_def js_sub_def js_gt_def)

lemma js_gt_Fin [simp]: "js_gt (Fin a) (Fin b) = (b < a)"
  by (simp add: js_gt_def)

lemma js_mul_Fin_pos: "0 < b \<Longrightarrow> js_mul (Fin a) (Fin b) = Fin (a * b)"
  by (auto simp add: js_mul_def mk_finite_def)

lemma js_eval:
  "js_mul (Fin a) (Fin b) = mk_finite ((a < 0) \<noteq> (b < 0)) (a * b)"
  "js_mul NegZero (Fin b) = mk_finite (\<not> b < 0) 0"
  "js_mul (Fin a) NegZero = mk_finite (\<not> a < 0) 0"
  "js_mul NegZero NegZero = Fin 0"
  "js_add (Fin a) (Fin b) = Fin (a + b)"
  "js_add (Fin a) NegZero = Fin a"
  "js_add NegZero (Fin b) = Fin b"
  "js_add NegZero NegZero = NegZero"
  "mk_finite True 0 = NegZero"
  by (simp_all add: js_mul_def js_add_def mk_finite_def)

lemma js_atan2_Fin:
  "y \<noteq> 0 \<Longrightarrow> js_atan2 (Fin y) (Fin x) = Fin (atan2 y x)"
  "js_atan2 (Fin 0) (Fin x) = (if x < 0 then Fin pi else Fin 0)"
  by (simp_all add: js_atan2_def)

lemma atan2_simps:
  "atan2 0 0 = 0" "0 < m \<Longrightarrow> atan2 m 0 = pi / 2" "0 < m \<Longrightarrow> atan2 0 m = 0"
  "0 < m \<Longrightarrow> atan2 0 (- m) = pi"
  by (simp_all add: atan2_def)

lemma nd_bounds:
  fixes m s :: real
  assumes "0 < m" and "0 \<le> s"
  shows "0 \<le> min (sqrt s / m) 1" and "min (sqrt s / m) 1 \<le> 1"
    and "m \<le> sqrt s \<Longrightarrow> min (sqrt s / m) 1 = 1"
  using assms by (simp_all add: min_def)

lemma horizontal_norm:
  fixes h t :: real
  shows "sqrt ((h * sin t)\<^sup>2 + (h * cos t)\<^sup>2) = \<bar>h\<bar>"
proof -
  have "(h * sin t)\<^sup>2 + (h * cos t)\<^sup>2 = h\<^sup>2 * ((sin t)\<^sup>2 + (cos t)\<^sup>2)"
    unfolding power_mult_distrib distrib_left ..
  also have "\<dots> = h\<^sup>2" by simp
  finally show ?thesis by simp
qed

lemma vertical_bound:
  fixes nd p R :: real
  assumes "0 \<le> nd" and "0 \<le> R"
  shows "\<bar>nd * sin p * R * (1 / 2)\<bar> \<le> (1 / 2) * nd * R"
proof -
  have "\<bar>nd * sin p * R * (1 / 2)\<bar> = (nd * R) * \<bar>sin p\<bar> * (1 / 2)"
    using assms by (simp add: abs_mult)
  also have "\<dots> \<le> (nd * R) * 1 * (1 / 2)"
    using assms by (intro mult_right_mono mult_left_mono) simp_all
  finally show ?thesis by simp
qed

section \<open>The relative position\<close>

lemmas the_options_defs =
  the_playerPosition_def the_playerQuaternion_def the_maxRange_def the_radarRadius_def
  the_shipRelative_def

lemma sceneOptions_simps:
  "the_playerPosition (sceneOptions m R) = [Fin 0, Fin 0, Fin 0]"
  "the_playerQuaternion (sceneOptions m R) = [Fin 0, Fin 0, Fin 0, Fin 1]"
  "the_maxRange (sceneOptions m R) = m" "the_radarRadius (sceneOptions m R) = R"
  "the_shipRelative (sceneOptions m R)"
  by (simp_all add: sceneOptions_def the_options_defs)

lemma js_index_triple:
  "js_index [a, b, d] 0 = a" "js_index [a, b, d] (Suc 0) = b" "js_index [a, b, d] 2 = d"
  by (simp_all add: js_index_def)

lemma relativePosition_finite:
  assumes "the_playerPosition opts = [px, py, pz]"
    and "the_playerQuaternion opts = [qa, qb, qc, qd]"
    and "list_all isFinite [x, y, z, px, py, pz, qa, qb, qc, qd]"
  shows "\<exists>a b c. relativePosition [x, y, z] opts = (a, b, c)
     \<and> isFinite a \<and> isFinite b \<and> isFinite c"
  using assms
  by (simp add: relativePosition_def js_index_def applyQuaternion_def invert_def
      Quaternion_def Let_def)

lemma relativePosition_identity:
  assumes "the_playerPosition opts = [Fin 0, Fin 0, Fin 0]"
    and "the_shipRelative opts \<longrightarrow> the_playerQuaternion opts = [Fin 0, Fin 0, Fin 0, Fin 1]"
  shows "relativePosition [Fin x, Fin y, Fin z] opts = (Fin x, Fin y, Fin z)"
  using assms
  by (simp add: relativePosition_def js_index_def applyQuaternion_def invert_def
      Quaternion_def Let_def js_sub_Fin_left js_add_Fin_left)

lemma relativePosition_at_observer:
  assumes "the_playerPosition opts = [x, y, z]"
    and "the_playerQuaternion opts = [qa, qb, qc, qd]"
    and "list_all isFinite [x, y, z, qa, qb, qc, qd]"
  shows "relativePosition [x, y, z] opts = (Fin 0, Fin 0, Fin 0)"
  using assms
  by (simp add: relativePosition_def js_index_def applyQuaternion_def invert_def
      Quaternion_def Let_def js_sub_self js_sub_Fin_left js_add_Fin_left)

lemma relativePosition_world_axes:
  assumes "the_playerPosition opts = [Fin 0, Fin 0, Fin 0]" and "\<not> the_shipRelative opts"
  shows "relativePosition pos opts = (js_index pos 0, js_index pos 1, js_index pos 2)"
  using assms by (simp add: relativePosition_def js_index_triple)

lemma relativePosition_scene_Fin:
  assumes "the_playerPosition opts = [Fin 0, Fin 0, Fin 0]"
    and "the_playerQuaternion opts = [Fin 0, Fin 0, Fin 0, Fin 1]"
    and "js_index pos 0 = Fin x" and "js_index pos 1 = Fin y" and "js_index pos 2 = Fin z"
  shows "relativePosition pos opts = (Fin x, Fin y, Fin z)"
  using assms
  by (simp add: relativePosition_def js_index_triple applyQuaternion_def invert_def
      Quaternion_def Let_def js_sub_Fin_left js_add_Fin_left)

lemma relativePosition_scene_NaN:
  assumes "the_playerPosition opts = [Fin 0, Fin 0, Fin 0]"
    and "the_playerQuaternion opts = [Fin 0, Fin 0, Fin 0, Fin 1]"
    and "the_shipRelative opts"
    and "js_index pos 0 = NaN \<or> js_index pos 1 = NaN \<or> js_index pos 2 = NaN"
  shows "\<exists>b d. relativePosition pos opts = (NaN, b, d)"
  using assms
  by (auto simp add: relativePosition_def js_index_triple applyQuaternion_def invert_def
      Quaternion_def Let_def)

section \<open>The local values and the returned object\<close>

lemma distance_finite:
  assumes "isFinite a" and "isFinite b" and "isFinite c"
  shows "distance (a, b, c) =
    Fin (sqrt (num_val a * num_val a + num_val b * num_val b + num_val c * num_val c))"
  using assms by (simp add: distance_def js_mul_self js_add_Fin_left)

lemma horizontalDist_finite:
  assumes "isFinite a" and "isFinite c"
  shows "horizontalDist (a, b, c) = Fin (sqrt (num_val a * num_val a + num_val c * num_val c))"
  using assms by (simp add: horizontalDist_def js_mul_self js_add_Fin_left)

lemma normalizedDist_finite:
  assumes "isFinite a" and "isFinite b" and "isFinite c" and "0 < m"
  shows "normalizedDist (a, b, c) (Fin m) =
    Fin (min (sqrt (num_val a * num_val a + num_val b * num_val b + num_val c * num_val c) / m) 1)"
  using assms by (simp add: normalizedDist_def distance_finite js_div_Fin_nonneg)

lemma normalizedDist_zero:
  "m \<noteq> 0 \<Longrightarrow> js_eq (normalizedDist (Fin 0, Fin 0, Fin 0) (Fin m)) (Fin 0)"
  by (simp add: normalizedDist_def distance_def js_mul_def js_add_def js_div_def js_eq_def
      mk_finite_def)

lemma theta_finite: "isFinite a \<Longrightarrow> isFinite c \<Longrightarrow> isFinite (theta (a, b, c))"
  by (simp add: theta_def)

lemma phi_finite: "isFinite a \<Longrightarrow> isFinite b \<Longrightarrow> isFinite c \<Longrightarrow> isFinite (phi (a, b, c))"
  by (simp add: phi_def horizontalDist_finite)

lemma transform_returns:
  "position c = Some pos \<Longrightarrow> \<exists>r. transformToRadarSpace c opts = Inr r"
  by (simp add: transformToRadarSpace_def Let_def)

lemma transform_result:
  assumes "position c = Some pos" and "relativePosition pos opts = (a, b, d)"
    and "nd = normalizedDist (a, b, d) (the_maxRange opts)"
  shows "transformToRadarSpace c opts = Inr (c\<lparr> props := (props c)
     (''radarPosition'' \<mapsto> JArray
        [js_mul (js_mul nd (the_radarRadius opts)) (js_sin (theta (a, b, d))),
         js_mul (js_mul (js_mul nd (js_sin (phi (a, b, d)))) (the_radarRadius opts)) (Fin (1 / 2)),
         js_mul (js_mul nd (the_radarRadius opts)) (js_cos (theta (a, b, d)))],
      ''basePosition'' \<mapsto> JArray
        [js_mul (js_mul nd (the_radarRadius opts)) (js_sin (theta (a, b, d))),
         Fin 0,
         js_mul (js_mul nd (the_radarRadius opts)) (js_cos (theta (a, b, d)))],
      ''normalizedDistance'' \<mapsto> JNumber nd,
      ''isAbove'' \<mapsto> JBoolean (js_gt b (Fin 0))) \<rparr>)"
  using assms by (simp add: transformToRadarSpace_def Let_def)

lemma transform_normalizedDistance:
  assumes "position c = Some pos" and "transformToRadarSpace c opts = Inr r"
  shows "props r ''normalizedDistance'' =
    Some (JNumber (normalizedDist (relativePosition pos opts) (the_maxRange opts)))"
  using assms by (auto simp add: transformToRadarSpace_def Let_def)

lemma transform_radarPosition:
  assumes "position c = Some pos" and "transformToRadarSpace c opts = Inr r"
    and "nd = normalizedDist (relativePosition pos opts) (the_maxRange opts)"
  shows "props r ''radarPosition'' = Some (JArray
     [js_mul (js_mul nd (the_radarRadius opts)) (js_sin (theta (relativePosition pos opts))),
      js_mul (js_mul (js_mul nd (js_sin (phi (relativePosition pos opts)))) (the_radarRadius opts))
        (Fin (1 / 2)),
      js_mul (js_mul nd (the_radarRadius opts)) (js_cos (theta (relativePosition pos opts)))])"
  using assms by (auto simp add: transformToRadarSpace_def Let_def)

lemma transform_basePosition:
  assumes "position c = Some pos" and "transformToRadarSpace c opts = Inr r"
    and "nd = normalizedDist (relativePosition pos opts) (the_maxRange opts)"
  shows "props r ''basePosition'' = Some (JArray
     [js_mul (js_mul nd (the_radarRadius opts)) (js_sin (theta (relativePosition pos opts))),
      Fin 0,
      js_mul (js_mul nd (the_radarRadius opts)) (js_cos (theta (relativePosition pos opts)))])"
  using assms by (auto simp add: transformToRadarSpace_def Let_def)

text \<open>
  The display point for a finite relative position and a positive range.
\<close>

lemma radarPosition_finite:
  assumes pos: "position c = Some pos" and r: "transformToRadarSpace c opts = Inr r"
    and rel: "relativePosition pos opts = (a, b, c')"
    and fin: "isFinite a" "isFinite b" "isFinite c'"
    and m: "the_maxRange opts = Fin m" "0 < m"
    and R: "the_radarRadius opts = Fin R"
    and nd: "nd = min (sqrt (num_val a * num_val a + num_val b * num_val b
                + num_val c' * num_val c') / m) 1"
  shows "\<exists>X Y Z. props r ''radarPosition'' = Some (JArray [X, Y, Z])
      \<and> isFinite X \<and> isFinite Y \<and> isFinite Z
      \<and> num_val X = nd * R * sin (num_val (theta (a, b, c')))
      \<and> num_val Y = nd * sin (num_val (phi (a, b, c'))) * R * (1 / 2)
      \<and> num_val Z = nd * R * cos (num_val (theta (a, b, c')))"
proof -
  have n: "normalizedDist (a, b, c') (the_maxRange opts) = Fin nd"
    using fin m nd by (simp add: normalizedDist_finite)
  have th: "isFinite (theta (a, b, c'))" and ph: "isFinite (phi (a, b, c'))"
    using fin by (simp_all add: theta_finite phi_finite)
  show ?thesis
    using transform_radarPosition [OF pos r refl] th ph
    by (simp add: rel n R js_cos_finite)
qed

lemma normalizedDist_NaN:
  "a = NaN \<or> b = NaN \<or> d = NaN \<Longrightarrow> normalizedDist (a, b, d) m = NaN"
  by (auto simp add: normalizedDist_def distance_def)

lemma Fin_or_NaN: "a \<notin> {NegZero, PosInf, NegInf} \<Longrightarrow> (\<exists>x. a = Fin x) \<or> a = NaN"
  by (cases a) simp_all

text \<open>
  The demo's copy computes what the main copy computes from the relative position, from
  the contact position itself.
\<close>

lemma demo_transform_result:
  assumes "position c = Some pos"
    and "rel = (js_index pos 0, js_index pos 1, js_index pos 2)"
    and "nd = normalizedDist rel (the_maxRange opts)"
  shows "demo_transformToRadarSpace c opts = Inr (c\<lparr> props := (props c)
     (''radarPosition'' \<mapsto> JArray
        [js_mul (js_mul nd (the_radarRadius opts)) (js_sin (theta rel)),
         js_mul (js_mul (js_mul nd (js_sin (phi rel))) (the_radarRadius opts)) (Fin (1 / 2)),
         js_mul (js_mul nd (the_radarRadius opts)) (js_cos (theta rel))],
      ''basePosition'' \<mapsto> JArray
        [js_mul (js_mul nd (the_radarRadius opts)) (js_sin (theta rel)),
         Fin 0,
         js_mul (js_mul nd (the_radarRadius opts)) (js_cos (theta rel))],
      ''normalizedDistance'' \<mapsto> JNumber nd) \<rparr>)"
  using assms
  by (simp add: demo_transformToRadarSpace_def Let_def normalizedDist_def distance_def
      theta_def phi_def horizontalDist_def the_maxRange_def the_radarRadius_def)

lemma undo_isAbove:
  "((m :: string \<rightharpoonup> js_value)(''radarPosition'' \<mapsto> a, ''basePosition'' \<mapsto> b,
       ''normalizedDistance'' \<mapsto> d, ''isAbove'' \<mapsto> e))(''isAbove'' := m ''isAbove'')
   = m(''radarPosition'' \<mapsto> a, ''basePosition'' \<mapsto> b, ''normalizedDistance'' \<mapsto> d)"
  by (rule ext) simp

lemma undo_isAbove_set:
  "((m :: string \<rightharpoonup> js_value)(''radarPosition'' \<mapsto> a, ''basePosition'' \<mapsto> b,
       ''normalizedDistance'' \<mapsto> d))(''isAbove'' := m ''isAbove'')
   = m(''radarPosition'' \<mapsto> a, ''basePosition'' \<mapsto> b, ''normalizedDistance'' \<mapsto> d)"
  by (rule ext) simp

subsection \<open>The shape of the returned object\<close>

lemma transform_shape:
  assumes "position c = Some pos"
  shows "\<exists>v1 v2 v3 v4. transformToRadarSpace c opts =
    Inr (c\<lparr> props := (props c)(''radarPosition'' \<mapsto> v1, ''basePosition'' \<mapsto> v2,
           ''normalizedDistance'' \<mapsto> v3, ''isAbove'' \<mapsto> v4) \<rparr>)"
  unfolding transformToRadarSpace_def assms option.case Let_def
  by (intro exI) (rule refl)

lemma demo_transform_shape:
  assumes "position c = Some pos"
  shows "\<exists>v1 v2 v3. demo_transformToRadarSpace c opts =
    Inr (c\<lparr> props := (props c)(''radarPosition'' \<mapsto> v1, ''basePosition'' \<mapsto> v2,
           ''normalizedDistance'' \<mapsto> v3) \<rparr>)"
  unfolding demo_transformToRadarSpace_def assms option.case Let_def
  by (intro exI) (rule refl)

lemma dom_four_updates:
  "dom (m(k1 \<mapsto> v1, k2 \<mapsto> v2, k3 \<mapsto> v3, k4 \<mapsto> v4)) = dom m \<union> {k1, k2, k3, k4}"
  by (simp only: dom_fun_upd option.distinct if_False Un_insert_right Un_empty_right
      insert_commute)

lemma dom_three_updates:
  "dom (m(k1 \<mapsto> v1, k2 \<mapsto> v2, k3 \<mapsto> v3)) = dom m \<union> {k1, k2, k3}"
  by (simp only: dom_fun_upd option.distinct if_False Un_insert_right Un_empty_right
      insert_commute)

lemma other_key_four_updates:
  "k \<notin> {k1, k2, k3, k4} \<Longrightarrow> (m(k1 \<mapsto> v1, k2 \<mapsto> v2, k3 \<mapsto> v3, k4 \<mapsto> v4)) k = m k"
  by simp

lemma other_key_three_updates:
  "k \<notin> {k1, k2, k3} \<Longrightarrow> (m(k1 \<mapsto> v1, k2 \<mapsto> v2, k3 \<mapsto> v3)) k = m k"
  by simp

subsection \<open>Two examples\<close>

text \<open>
  The display point of a contact straight above at \<open>maxRange\<close> lies outside the
  sphere of radius \<open>radarRadius\<close>. With \<open>shipRelative\<close> set, an infinite
  coordinate becomes \<open>NaN\<close> in the main copy and is clamped in the demo's.
\<close>

lemma radar_point_beyond_radius:
  "\<exists>r.
     transformToRadarSpace \<lparr> position = Some [Fin 0, Fin 5000, Fin 0], props = Map.empty \<rparr>
       (sceneOptions (Fin 5000) (Fin 1)) = Inr r
     \<and> props r ''radarPosition'' = Some (JArray [Fin 0, Fin (1 / 2), Fin 1])
     \<and> 1 < sqrt (0\<^sup>2 + (1 / 2)\<^sup>2 + 1\<^sup>2 :: real)"
proof -
  have rel: "relativePosition [Fin 0, Fin 5000, Fin 0] (sceneOptions (Fin 5000) (Fin 1))
      = (Fin 0, Fin 5000, Fin 0)"
    by (rule relativePosition_identity) (simp_all add: sceneOptions_simps)
  have nd: "normalizedDist (Fin 0, Fin 5000, Fin 0) (Fin 5000) = Fin 1"
    by (simp add: normalizedDist_finite)
  have az: "theta (Fin 0, Fin 5000, Fin 0) = Fin 0"
    by (simp add: theta_def js_atan2_Fin)
  have el: "phi (Fin 0, Fin 5000, Fin 0) = Fin (pi / 2)"
    by (simp add: phi_def horizontalDist_finite js_atan2_Fin atan2_simps)
  show ?thesis
    by (subst transform_result [OF _ rel refl])
       (simp_all add: sceneOptions_simps nd az el js_mul_Fin_nonneg)
qed

lemma copies_disagree_on_infinity:
  "(\<exists>r. transformToRadarSpace \<lparr> position = Some [PosInf, Fin 0, Fin 0], props = Map.empty \<rparr>
        (sceneOptions (Fin 5000) (Fin 1)) = Inr r
      \<and> props r ''normalizedDistance'' = Some (JNumber NaN))
   \<and> (\<exists>r'. demo_transformToRadarSpace
        \<lparr> position = Some [PosInf, Fin 0, Fin 0], props = Map.empty \<rparr>
        (sceneOptions (Fin 5000) (Fin 1)) = Inr r'
      \<and> props r' ''normalizedDistance'' = Some (JNumber (Fin 1)))"
proof
  have "\<exists>b d. relativePosition [PosInf, Fin 0, Fin 0] (sceneOptions (Fin 5000) (Fin 1))
      = (NaN, b, d)"
    by (simp add: relativePosition_def js_index_triple sceneOptions_simps applyQuaternion_def
        invert_def Quaternion_def Let_def js_eval)
       (simp add: js_mul_def js_sub_def)
  then obtain b d where rel:
    "relativePosition [PosInf, Fin 0, Fin 0] (sceneOptions (Fin 5000) (Fin 1)) = (NaN, b, d)"
    by blast
  have nd: "normalizedDist (NaN, b, d) (Fin 5000) = NaN"
    by (simp add: normalizedDist_def distance_def)
  show "\<exists>r. transformToRadarSpace \<lparr> position = Some [PosInf, Fin 0, Fin 0], props = Map.empty \<rparr>
        (sceneOptions (Fin 5000) (Fin 1)) = Inr r
      \<and> props r ''normalizedDistance'' = Some (JNumber NaN)"
    by (subst transform_result [OF _ rel refl]) (simp_all add: sceneOptions_simps nd)
  have nd': "normalizedDist (PosInf, Fin 0, Fin 0) (Fin 5000) = Fin 1"
    by (simp add: normalizedDist_def distance_def js_mul_def js_add_def js_div_def
        signed_inf_def)
  show "\<exists>r'. demo_transformToRadarSpace
        \<lparr> position = Some [PosInf, Fin 0, Fin 0], props = Map.empty \<rparr>
        (sceneOptions (Fin 5000) (Fin 1)) = Inr r'
      \<and> props r' ''normalizedDistance'' = Some (JNumber (Fin 1))"
    by (subst demo_transform_result [where pos = "[PosInf, Fin 0, Fin 0]", OF _ refl refl])
       (simp_all add: sceneOptions_simps js_index_triple nd')
qed

section \<open>The range clamp\<close>

text \<open>
  Claim C1. For every tracked object and every configuration with \<open>maxRange > 0\<close>,
  the \<open>normalizedDistance\<close> the transform returns lies in \<open>[0, 1]\<close>, and it is
  exactly \<open>1\<close> whenever the Euclidean distance of the relative position is at least
  \<open>maxRange\<close>. The coordinates of the contact and of the observer are finite numbers
  (either zero included), as the data model has them; \<open>radarRadius\<close> and
  \<open>shipRelative\<close> are arbitrary.
\<close>

theorem normalizedDistance_in_unit_interval:
  assumes "position c = Some [x, y, z]"
    and "the_playerPosition opts = [px, py, pz]"
    and "the_playerQuaternion opts = [qa, qb, qc, qd]"
    and "list_all isFinite [x, y, z, px, py, pz, qa, qb, qc, qd]"
    and "the_maxRange opts = Fin m" and "0 < m"
  shows "\<exists>r dist nd. transformToRadarSpace c opts = Inr r
      \<and> distance (relativePosition [x, y, z] opts) = Fin dist
      \<and> props r ''normalizedDistance'' = Some (JNumber (Fin nd))
      \<and> 0 \<le> nd \<and> nd \<le> 1 \<and> (m \<le> dist \<longrightarrow> nd = 1)"
proof -
  obtain a b c' where rel: "relativePosition [x, y, z] opts = (a, b, c')"
    and fin: "isFinite a" "isFinite b" "isFinite c'"
    using relativePosition_finite [OF assms(2,3,4)] by blast
  obtain r where r: "transformToRadarSpace c opts = Inr r"
    using transform_returns [OF assms(1)] by blast
  let ?s = "num_val a * num_val a + num_val b * num_val b + num_val c' * num_val c'"
  have s: "0 \<le> ?s" by simp
  have "props r ''normalizedDistance'' = Some (JNumber (Fin (min (sqrt ?s / m) 1)))"
    using transform_normalizedDistance [OF assms(1) r] assms(5,6) fin
    by (simp add: rel normalizedDist_finite)
  moreover have "distance (relativePosition [x, y, z] opts) = Fin (sqrt ?s)"
    using fin by (simp add: rel distance_finite)
  moreover note nd_bounds [OF assms(6) s]
  ultimately show ?thesis using r by blast
qed

text \<open>
  Two instances: \<open>hostile-1\<close> within the default range, and \<open>station-1\<close> at
  distance \<open>4000\<close> with \<open>maxRange = 4000\<close>, which is clamped to \<open>1\<close>.
\<close>

theorem normalizedDistance_in_unit_interval_witness:
  "(\<exists>r nd. transformToRadarSpace hostile_1 (sceneOptions (Fin 5000) (Fin 1)) = Inr r
      \<and> props r ''normalizedDistance'' = Some (JNumber (Fin nd)) \<and> 0 \<le> nd \<and> nd \<le> 1)
   \<and> (\<exists>r. transformToRadarSpace station_1 (sceneOptions (Fin 4000) (Fin 1)) = Inr r
      \<and> props r ''normalizedDistance'' = Some (JNumber (Fin 1)))"
proof
  show "\<exists>r nd. transformToRadarSpace hostile_1 (sceneOptions (Fin 5000) (Fin 1)) = Inr r
      \<and> props r ''normalizedDistance'' = Some (JNumber (Fin nd)) \<and> 0 \<le> nd \<and> nd \<le> 1"
    using normalizedDistance_in_unit_interval
      [of hostile_1 "Fin 2000" "Fin 800" "Fin 1500" "sceneOptions (Fin 5000) (Fin 1)"
          "Fin 0" "Fin 0" "Fin 0" "Fin 0" "Fin 0" "Fin 0" "Fin 1" 5000]
    by (auto simp add: hostile_1_def sceneOptions_def the_options_defs)
  have "relativePosition [Fin 0, Fin 0, Fin (- 4000)] (sceneOptions (Fin 4000) (Fin 1))
     = (Fin 0, Fin 0, Fin (- 4000))"
    by (rule relativePosition_identity) (simp_all add: sceneOptions_def the_options_defs)
  then have "distance (relativePosition [Fin 0, Fin 0, Fin (- 4000)]
      (sceneOptions (Fin 4000) (Fin 1))) = Fin 4000"
    by (simp add: distance_finite)
  then show "\<exists>r. transformToRadarSpace station_1 (sceneOptions (Fin 4000) (Fin 1)) = Inr r
      \<and> props r ''normalizedDistance'' = Some (JNumber (Fin 1))"
    using normalizedDistance_in_unit_interval
      [of station_1 "Fin 0" "Fin 0" "Fin (- 4000)" "sceneOptions (Fin 4000) (Fin 1)"
          "Fin 0" "Fin 0" "Fin 0" "Fin 0" "Fin 0" "Fin 0" "Fin 1" 4000]
    by (auto simp add: station_1_def sceneOptions_def the_options_defs)
qed

section \<open>No validation of the configuration\<close>

text \<open>
  Claim C2 says that \<open>maxRange \<le> 0\<close>, \<open>radarRadius \<le> 0\<close> or a non-finite
  coordinate makes the transform fail with an invalid-configuration error, so that no
  \<open>NaN\<close> or infinity reaches \<open>radarPosition\<close>. The function body holds no check
  and no \<open>throw\<close>: with \<open>maxRange = 0\<close> and the contact at the observer's position
  it divides \<open>0\<close> by \<open>0\<close> and returns an object whose \<open>radarPosition\<close> is
  \<open>[NaN, NaN, NaN]\<close>.
\<close>

theorem no_validation_counterexample:
  "transformToRadarSpace \<lparr> position = Some [Fin 0, Fin 0, Fin 0], props = Map.empty \<rparr>
     (sceneOptions (Fin 0) (Fin 1))
   = Inr \<lparr> position = Some [Fin 0, Fin 0, Fin 0],
         props = [''radarPosition'' \<mapsto> JArray [NaN, NaN, NaN],
                  ''basePosition'' \<mapsto> JArray [NaN, Fin 0, NaN],
                  ''normalizedDistance'' \<mapsto> JNumber NaN,
                  ''isAbove'' \<mapsto> JBoolean False] \<rparr>"
proof -
  have rel: "relativePosition [Fin 0, Fin 0, Fin 0] (sceneOptions (Fin 0) (Fin 1))
      = (Fin 0, Fin 0, Fin 0)"
    by (rule relativePosition_identity) (simp_all add: sceneOptions_simps)
  have nd: "normalizedDist (Fin 0, Fin 0, Fin 0) (Fin 0) = NaN"
    by (simp add: normalizedDist_def distance_finite js_div_def)
  show ?thesis
    by (subst transform_result [OF _ rel refl]) (simp_all add: sceneOptions_simps nd)
qed

text \<open>
  Claim C2 as amended. Whatever the options and the coordinates are, also with
  \<open>maxRange \<le> 0\<close>, \<open>radarRadius \<le> 0\<close> or non-finite coordinates, the transform
  returns an object for every contact that has a \<open>position\<close> array: nothing is
  validated and no configuration error exists.
\<close>

theorem transform_never_rejects:
  "position c = Some pos \<Longrightarrow> \<exists>r. transformToRadarSpace c opts = Inr r"
  by (simp add: transformToRadarSpace_def Let_def)

theorem transform_never_rejects_witness:
  "\<exists>r. transformToRadarSpace \<lparr> position = Some [PosInf, Fin 0, NaN], props = Map.empty \<rparr>
     (sceneOptions (Fin (- 5)) (Fin 0)) = Inr r"
  using transform_never_rejects
    [of "\<lparr> position = Some [PosInf, Fin 0, NaN], props = Map.empty \<rparr>" "[PosInf, Fin 0, NaN]"
        "sceneOptions (Fin (- 5)) (Fin 0)"]
  by simp

section \<open>A contact directly above the observer\<close>

text \<open>
  Claim C3 says that for \<open>position = [0, maxRange, 0]\<close>, the observer at the origin
  and no rotation, both horizontal display components are \<open>0\<close>. The transform scales
  the horizontal radius by the normalised three-dimensional distance, not by the
  horizontal one, and \<open>theta = atan2(0, 0) = 0\<close>: with \<open>maxRange = 5000\<close> and
  \<open>radarRadius = 1\<close> it returns \<open>radarPosition = [0, 0.5, 1]\<close>, so
  \<open>radarZ\<close> is \<open>1\<close>.
\<close>

theorem directly_above_counterexample:
  "transformToRadarSpace \<lparr> position = Some [Fin 0, Fin 5000, Fin 0], props = Map.empty \<rparr>
     (sceneOptions (Fin 5000) (Fin 1))
   = Inr \<lparr> position = Some [Fin 0, Fin 5000, Fin 0],
         props = [''radarPosition'' \<mapsto> JArray [Fin 0, Fin (1 / 2), Fin 1],
                  ''basePosition'' \<mapsto> JArray [Fin 0, Fin 0, Fin 1],
                  ''normalizedDistance'' \<mapsto> JNumber (Fin 1),
                  ''isAbove'' \<mapsto> JBoolean True] \<rparr>
   \<and> Fin 1 \<noteq> Fin 0"
proof -
  have rel: "relativePosition [Fin 0, Fin 5000, Fin 0] (sceneOptions (Fin 5000) (Fin 1))
      = (Fin 0, Fin 5000, Fin 0)"
    by (rule relativePosition_identity) (simp_all add: sceneOptions_simps)
  have nd: "normalizedDist (Fin 0, Fin 5000, Fin 0) (Fin 5000) = Fin 1"
    by (simp add: normalizedDist_finite)
  have az: "theta (Fin 0, Fin 5000, Fin 0) = Fin 0"
    by (simp add: theta_def js_atan2_Fin)
  have el: "phi (Fin 0, Fin 5000, Fin 0) = Fin (pi / 2)"
    by (simp add: phi_def horizontalDist_finite js_atan2_Fin atan2_simps)
  show ?thesis
    by (subst transform_result [OF _ rel refl])
       (simp_all add: sceneOptions_simps nd az el js_mul_Fin_nonneg)
qed

text \<open>
  Claim C3 as amended. For \<open>position = [0, maxRange, 0]\<close> with \<open>maxRange > 0\<close>,
  the observer at the origin and no rotation (\<open>shipRelative\<close> unset, or the identity
  quaternion): \<open>horizontalDist = 0\<close>, \<open>phi = \<pi>/2\<close>, \<open>radarY = radarRadius * 0.5\<close>,
  \<open>radarX == 0\<close> and \<open>radarZ = radarRadius\<close>. The zero \<open>radarX\<close> is the
  product \<open>radarRadius * 0\<close>: the positive zero for a radius that is not negative, the
  negative zero otherwise.
\<close>

theorem directly_above:
  assumes "position c = Some [Fin 0, Fin m, Fin 0]" and "0 < m"
    and "the_playerPosition opts = [Fin 0, Fin 0, Fin 0]"
    and "the_shipRelative opts \<longrightarrow> the_playerQuaternion opts = [Fin 0, Fin 0, Fin 0, Fin 1]"
    and "the_maxRange opts = Fin m" and "the_radarRadius opts = Fin R"
  shows "\<exists>r X. transformToRadarSpace c opts = Inr r
      \<and> horizontalDist (relativePosition [Fin 0, Fin m, Fin 0] opts) = Fin 0
      \<and> phi (relativePosition [Fin 0, Fin m, Fin 0] opts) = Fin (pi / 2)
      \<and> props r ''radarPosition'' = Some (JArray [X, Fin (R * (1 / 2)), Fin R])
      \<and> js_eq X (Fin 0) \<and> (0 \<le> R \<longrightarrow> X = Fin 0)"
proof -
  have rel: "relativePosition [Fin 0, Fin m, Fin 0] opts = (Fin 0, Fin m, Fin 0)"
    using assms(3,4) by (rule relativePosition_identity)
  obtain r where r: "transformToRadarSpace c opts = Inr r"
    using transform_returns [OF assms(1)] by blast
  have nd: "normalizedDist (Fin 0, Fin m, Fin 0) (the_maxRange opts) = Fin 1"
    using assms(2,5) by (simp add: normalizedDist_finite)
  have az: "theta (Fin 0, Fin m, Fin 0) = Fin 0"
    by (simp add: theta_def js_atan2_Fin)
  have hd: "horizontalDist (Fin 0, Fin m, Fin 0) = Fin 0"
    by (simp add: horizontalDist_finite)
  have el: "phi (Fin 0, Fin m, Fin 0) = Fin (pi / 2)"
    using assms(2) by (simp add: phi_def hd js_atan2_Fin atan2_simps)
  have "props r ''radarPosition'' = Some (JArray
      [js_mul (Fin R) (Fin 0), Fin (R * (1 / 2)), Fin R])"
    using transform_radarPosition [OF assms(1) r refl] assms(6)
    by (simp add: nd rel az el js_mul_Fin_pos)
  moreover have "js_eq (js_mul (Fin R) (Fin 0)) (Fin 0)"
    by (simp add: js_eq_Fin)
  moreover have "0 \<le> R \<longrightarrow> js_mul (Fin R) (Fin 0) = Fin 0"
    by (simp add: js_mul_Fin_nonneg)
  ultimately show ?thesis using r by (simp add: rel hd el)
qed

theorem directly_above_witness:
  "\<exists>r. transformToRadarSpace \<lparr> position = Some [Fin 0, Fin 5000, Fin 0], props = Map.empty \<rparr>
        (sceneOptions (Fin 5000) (Fin 3)) = Inr r
      \<and> horizontalDist (relativePosition [Fin 0, Fin 5000, Fin 0] (sceneOptions (Fin 5000) (Fin 3)))
          = Fin 0
      \<and> phi (relativePosition [Fin 0, Fin 5000, Fin 0] (sceneOptions (Fin 5000) (Fin 3)))
          = Fin (pi / 2)
      \<and> props r ''radarPosition'' = Some (JArray [Fin 0, Fin (3 / 2), Fin 3])"
  using directly_above
    [of "\<lparr> position = Some [Fin 0, Fin 5000, Fin 0], props = Map.empty \<rparr>" 5000
        "sceneOptions (Fin 5000) (Fin 3)" 3]
  by (auto simp add: sceneOptions_def the_options_defs)

section \<open>The horizontal radius of the display point\<close>

text \<open>
  Claim C4. For every input with \<open>maxRange > 0\<close> the Euclidean norm of the two
  horizontal display components, \<open>sqrt (radarX\<^sup>2 + radarZ\<^sup>2)\<close>, is
  \<open>normalizedDistance * radarRadius\<close> in real arithmetic; the factor \<open>0.5\<close> enters
  the vertical component only, which is \<open>normalizedDistance * sin phi * radarRadius * 0.5\<close>.
  An input is a contact and an observer with finite coordinates and a display radius,
  which is not negative (the data model has it positive, and every caller passes
  \<open>1\<close>).
\<close>

theorem horizontal_norm_is_scaled_distance:
  assumes "position c = Some [x, y, z]"
    and "the_playerPosition opts = [px, py, pz]"
    and "the_playerQuaternion opts = [qa, qb, qc, qd]"
    and "list_all isFinite [x, y, z, px, py, pz, qa, qb, qc, qd]"
    and "the_maxRange opts = Fin m" and "0 < m"
    and "the_radarRadius opts = Fin R" and "0 \<le> R"
  shows "\<exists>r nd el X Y Z. transformToRadarSpace c opts = Inr r
      \<and> props r ''normalizedDistance'' = Some (JNumber (Fin nd))
      \<and> phi (relativePosition [x, y, z] opts) = el
      \<and> props r ''radarPosition'' = Some (JArray [X, Y, Z])
      \<and> isFinite el \<and> isFinite X \<and> isFinite Y \<and> isFinite Z
      \<and> sqrt ((num_val X)\<^sup>2 + (num_val Z)\<^sup>2) = nd * R
      \<and> num_val Y = nd * sin (num_val el) * R * (1 / 2)"
proof -
  obtain a b c' where rel: "relativePosition [x, y, z] opts = (a, b, c')"
    and fin: "isFinite a" "isFinite b" "isFinite c'"
    using relativePosition_finite [OF assms(2,3,4)] by blast
  obtain r where r: "transformToRadarSpace c opts = Inr r"
    using transform_returns [OF assms(1)] by blast
  let ?s = "num_val a * num_val a + num_val b * num_val b + num_val c' * num_val c'"
  let ?nd = "min (sqrt ?s / m) 1"
  have s: "0 \<le> ?s" by simp
  have nd: "props r ''normalizedDistance'' = Some (JNumber (Fin ?nd))"
    using transform_normalizedDistance [OF assms(1) r] assms(5,6) fin
    by (simp add: rel normalizedDist_finite)
  obtain X Y Z where rp: "props r ''radarPosition'' = Some (JArray [X, Y, Z])"
    and XYZ: "isFinite X" "isFinite Y" "isFinite Z"
    and X: "num_val X = ?nd * R * sin (num_val (theta (a, b, c')))"
    and Y: "num_val Y = ?nd * sin (num_val (phi (a, b, c'))) * R * (1 / 2)"
    and Z: "num_val Z = ?nd * R * cos (num_val (theta (a, b, c')))"
    using radarPosition_finite [OF assms(1) r rel fin assms(5,6,7) refl] by blast
  have "sqrt ((num_val X)\<^sup>2 + (num_val Z)\<^sup>2) = ?nd * R"
    unfolding X Z using nd_bounds(1) [OF assms(6) s] assms(8)
    by (simp only: horizontal_norm) simp
  moreover have "isFinite (phi (a, b, c'))"
    using fin by (simp add: phi_finite)
  ultimately show ?thesis using r nd rp XYZ Y rel by auto
qed

theorem horizontal_norm_is_scaled_distance_witness:
  "\<exists>r nd el X Y Z. transformToRadarSpace hostile_1 (sceneOptions (Fin 5000) (Fin 1)) = Inr r
      \<and> props r ''normalizedDistance'' = Some (JNumber (Fin nd))
      \<and> phi (relativePosition [Fin 2000, Fin 800, Fin 1500] (sceneOptions (Fin 5000) (Fin 1)))
          = el
      \<and> props r ''radarPosition'' = Some (JArray [X, Y, Z])
      \<and> isFinite el \<and> isFinite X \<and> isFinite Y \<and> isFinite Z
      \<and> sqrt ((num_val X)\<^sup>2 + (num_val Z)\<^sup>2) = nd * 1
      \<and> num_val Y = nd * sin (num_val el) * 1 * (1 / 2)"
  using horizontal_norm_is_scaled_distance
    [of hostile_1 "Fin 2000" "Fin 800" "Fin 1500" "sceneOptions (Fin 5000) (Fin 1)"
        "Fin 0" "Fin 0" "Fin 0" "Fin 0" "Fin 0" "Fin 0" "Fin 1" 5000 1]
  by (simp add: hostile_1_def sceneOptions_def the_options_defs)

section \<open>The base point\<close>

text \<open>
  Claim C5. For every input the returned \<open>basePosition\<close> is \<open>radarPosition\<close> with
  the vertical component set to \<open>0\<close>: components \<open>0\<close> and \<open>2\<close> are those of
  \<open>radarPosition\<close> and component \<open>1\<close> is \<open>0\<close>. This holds for all options and
  all numbers, finite or not, whenever the contact has a \<open>position\<close> array.
\<close>

theorem basePosition_is_flattened_radarPosition:
  assumes "position c = Some pos"
  shows "\<exists>r rp bp. transformToRadarSpace c opts = Inr r
      \<and> props r ''radarPosition'' = Some (JArray rp)
      \<and> props r ''basePosition'' = Some (JArray bp)
      \<and> length rp = 3 \<and> bp = rp[1 := Fin 0]
      \<and> bp ! 0 = rp ! 0 \<and> bp ! 1 = Fin 0 \<and> bp ! 2 = rp ! 2"
  using assms by (simp add: transformToRadarSpace_def Let_def)

theorem basePosition_is_flattened_radarPosition_witness:
  "\<exists>r rp bp. transformToRadarSpace hostile_1 (sceneOptions (Fin 5000) (Fin 1)) = Inr r
      \<and> props r ''radarPosition'' = Some (JArray rp)
      \<and> props r ''basePosition'' = Some (JArray bp)
      \<and> length rp = 3 \<and> bp = rp[1 := Fin 0]
      \<and> bp ! 0 = rp ! 0 \<and> bp ! 1 = Fin 0 \<and> bp ! 2 = rp ! 2"
  using basePosition_is_flattened_radarPosition
    [of hostile_1 "[Fin 2000, Fin 800, Fin 1500]" "sceneOptions (Fin 5000) (Fin 1)"]
  by (simp add: hostile_1_def)

section \<open>A contact at the observer's position\<close>

text \<open>
  Claim C6. For a contact at the observer's exact position the relative position is
  \<open>[0, 0, 0]\<close>, both angles are \<open>atan2(0, 0) = 0\<close>, and the transform yields
  \<open>normalizedDistance == 0\<close>, \<open>radarPosition == [0, 0, 0]\<close> and
  \<open>basePosition == [0, 0, 0]\<close>. This holds for every finite observer position and
  quaternion, with or without \<open>shipRelative\<close>, for every real \<open>radarRadius\<close> and
  every real \<open>maxRange\<close> other than \<open>0\<close>. The comparison is that of JavaScript,
  under which the two zeros are equal; for a valid configuration, \<open>maxRange > 0\<close> and
  \<open>radarRadius \<ge> 0\<close>, every one of these zeros is the positive zero.
\<close>

theorem contact_at_observer:
  assumes "position c = Some [x, y, z]"
    and "the_playerPosition opts = [x, y, z]"
    and "the_playerQuaternion opts = [qa, qb, qc, qd]"
    and "list_all isFinite [x, y, z, qa, qb, qc, qd]"
    and "the_maxRange opts = Fin m" and "m \<noteq> 0"
    and "the_radarRadius opts = Fin R"
  shows "\<exists>r n X Y Z. transformToRadarSpace c opts = Inr r
      \<and> relativePosition [x, y, z] opts = (Fin 0, Fin 0, Fin 0)
      \<and> theta (Fin 0, Fin 0, Fin 0) = Fin 0 \<and> phi (Fin 0, Fin 0, Fin 0) = Fin 0
      \<and> props r ''normalizedDistance'' = Some (JNumber n)
      \<and> props r ''radarPosition'' = Some (JArray [X, Y, Z])
      \<and> props r ''basePosition'' = Some (JArray [X, Fin 0, Z])
      \<and> js_eq n (Fin 0) \<and> js_eq X (Fin 0) \<and> js_eq Y (Fin 0) \<and> js_eq Z (Fin 0)
      \<and> (0 < m \<and> 0 \<le> R \<longrightarrow> n = Fin 0 \<and> X = Fin 0 \<and> Y = Fin 0 \<and> Z = Fin 0)"
proof -
  define n where "n = normalizedDist (Fin 0, Fin 0, Fin 0) (Fin m)"
  define X where "X = js_mul (js_mul n (Fin R)) (Fin 0)"
  define Y where "Y = js_mul (js_mul (js_mul n (Fin 0)) (Fin R)) (Fin (1 / 2))"
  define Z where "Z = js_mul (js_mul n (Fin R)) (Fin 1)"
  define r where "r = c\<lparr> props := (props c)
     (''radarPosition'' \<mapsto> JArray [X, Y, Z], ''basePosition'' \<mapsto> JArray [X, Fin 0, Z],
      ''normalizedDistance'' \<mapsto> JNumber n, ''isAbove'' \<mapsto> JBoolean False) \<rparr>"
  have rel: "relativePosition [x, y, z] opts = (Fin 0, Fin 0, Fin 0)"
    using assms(2,3,4) by (rule relativePosition_at_observer)
  have az: "theta (Fin 0, Fin 0, Fin 0) = Fin 0" and el: "phi (Fin 0, Fin 0, Fin 0) = Fin 0"
    by (simp_all add: theta_def phi_def horizontalDist_finite js_atan2_Fin)
  have res: "transformToRadarSpace c opts = Inr r"
    unfolding r_def X_def Y_def Z_def n_def
    by (subst transform_result [OF assms(1) rel refl]) (simp add: assms(5,7) az el)
  have n: "js_eq n (Fin 0)"
    unfolding n_def using assms(6) by (rule normalizedDist_zero)
  then have fin: "isFinite n" and val: "num_val n = 0"
    by (simp_all add: js_eq_Fin)
  have zeros: "js_eq X (Fin 0)" "js_eq Y (Fin 0)" "js_eq Z (Fin 0)"
    unfolding X_def Y_def Z_def using fin val by (simp_all add: js_eq_Fin)
  have exact: "0 < m \<and> 0 \<le> R \<longrightarrow> n = Fin 0 \<and> X = Fin 0 \<and> Y = Fin 0 \<and> Z = Fin 0"
  proof
    assume valid: "0 < m \<and> 0 \<le> R"
    then have "n = Fin 0"
      unfolding n_def by (simp add: normalizedDist_finite)
    with valid show "n = Fin 0 \<and> X = Fin 0 \<and> Y = Fin 0 \<and> Z = Fin 0"
      unfolding X_def Y_def Z_def by (simp add: js_mul_Fin_nonneg)
  qed
  have fields: "props r ''normalizedDistance'' = Some (JNumber n)"
    "props r ''radarPosition'' = Some (JArray [X, Y, Z])"
    "props r ''basePosition'' = Some (JArray [X, Fin 0, Z])"
    by (simp_all add: r_def)
  from res rel az el fields n zeros exact show ?thesis
    by blast
qed

theorem contact_at_observer_witness:
  "\<exists>r. transformToRadarSpace hostile_1
        \<lparr> playerPosition = Some [Fin 2000, Fin 800, Fin 1500],
          playerQuaternion = Some [Fin 0, Fin 1, Fin 0, Fin 0],
          maxRange = None, radarRadius = None, shipRelative = None \<rparr> = Inr r
      \<and> props r ''normalizedDistance'' = Some (JNumber (Fin 0))
      \<and> props r ''radarPosition'' = Some (JArray [Fin 0, Fin 0, Fin 0])
      \<and> props r ''basePosition'' = Some (JArray [Fin 0, Fin 0, Fin 0])"
  using contact_at_observer
    [of hostile_1 "Fin 2000" "Fin 800" "Fin 1500"
        "\<lparr> playerPosition = Some [Fin 2000, Fin 800, Fin 1500],
          playerQuaternion = Some [Fin 0, Fin 1, Fin 0, Fin 0],
          maxRange = None, radarRadius = None, shipRelative = None \<rparr>"
        "Fin 0" "Fin 1" "Fin 0" "Fin 0" 5000 1]
  by (auto simp add: hostile_1_def the_options_defs)

section \<open>A contact at range on the negative z axis\<close>

text \<open>
  Claim C7. For \<open>position = [0, 0, -maxRange]\<close>, with the observer at the origin and
  no rotation, the contact is dead ahead: azimuth \<open>0\<close>, elevation \<open>0\<close>,
  \<open>normalizedDistance == 1\<close>, and the display point is at distance \<open>radarRadius\<close>
  from the centre on the forward axis, with zero vertical component. The axis is the
  implementer's choice, which the code makes in two places. \<open>theta\<close> is
  \<open>atan2(relX, relZ)\<close>, counted from the positive z axis, so here it is \<open>\<pi>\<close>;
  the heading indicator, which marks the forward direction on the display, points along
  the negative z axis. The display point is \<open>[0, 0, -radarRadius]\<close>, on the ray from
  the centre through the tip of the heading indicator, which is \<open>0.15\<close> times the
  horizontal part of the display point: the azimuth from the forward direction is
  \<open>0\<close>. The equalities are those of exact arithmetic; in doubles
  \<open>Math.sin(Math.atan2(0, -maxRange))\<close> is \<open>1.2246e-16\<close> and \<open>radarX\<close> is
  that times \<open>radarRadius\<close>, which is the claim's \<open>\<approx>\<close>.
\<close>

theorem contact_at_range_on_negative_z:
  assumes "position c = Some [Fin 0, Fin 0, Fin (- m)]" and "0 < m"
    and "the_playerPosition opts = [Fin 0, Fin 0, Fin 0]"
    and "the_shipRelative opts \<longrightarrow> the_playerQuaternion opts = [Fin 0, Fin 0, Fin 0, Fin 1]"
    and "the_maxRange opts = Fin m" and "the_radarRadius opts = Fin R" and "0 < R"
  shows "\<exists>r X Y Z. transformToRadarSpace c opts = Inr r
      \<and> theta (relativePosition [Fin 0, Fin 0, Fin (- m)] opts) = Fin pi
      \<and> phi (relativePosition [Fin 0, Fin 0, Fin (- m)] opts) = Fin 0
      \<and> props r ''normalizedDistance'' = Some (JNumber (Fin 1))
      \<and> props r ''radarPosition'' = Some (JArray [Fin X, Fin Y, Fin Z])
      \<and> X = 0 \<and> Y = 0 \<and> Z = - R
      \<and> sqrt (X\<^sup>2 + Y\<^sup>2 + Z\<^sup>2) = R
      \<and> snd (HeadingIndicator (Fin R))
          = [Fin (X * (15 / 100)), Fin (2 / 1000), Fin (Z * (15 / 100))]"
proof -
  have rel: "relativePosition [Fin 0, Fin 0, Fin (- m)] opts = (Fin 0, Fin 0, Fin (- m))"
    using assms(3,4) by (rule relativePosition_identity)
  obtain r where r: "transformToRadarSpace c opts = Inr r"
    using transform_returns [OF assms(1)] by blast
  have nd: "normalizedDist (Fin 0, Fin 0, Fin (- m)) (the_maxRange opts) = Fin 1"
    using assms(2,5) by (simp add: normalizedDist_finite)
  have az: "theta (Fin 0, Fin 0, Fin (- m)) = Fin pi"
    using assms(2) by (simp add: theta_def js_atan2_Fin)
  have el: "phi (Fin 0, Fin 0, Fin (- m)) = Fin 0"
    using assms(2) by (simp add: phi_def horizontalDist_finite js_atan2_Fin)
  have "props r ''normalizedDistance'' = Some (JNumber (Fin 1))"
    using transform_normalizedDistance [OF assms(1) r] by (simp add: rel nd)
  moreover have "props r ''radarPosition'' = Some (JArray [Fin 0, Fin 0, Fin (- R)])"
    using transform_radarPosition [OF assms(1) r refl] assms(6,7)
    by (simp add: rel nd az el js_eval)
  moreover have "snd (HeadingIndicator (Fin R)) = [Fin 0, Fin (2 / 1000), Fin (- R * (15 / 100))]"
    using assms(7) by (simp add: HeadingIndicator_def js_eval)
  ultimately show ?thesis using r assms(7) by (simp add: rel az el)
qed

theorem contact_at_range_on_negative_z_witness:
  "\<exists>r. transformToRadarSpace station_1 (sceneOptions (Fin 4000) (Fin 2)) = Inr r
      \<and> theta (relativePosition [Fin 0, Fin 0, Fin (- 4000)] (sceneOptions (Fin 4000) (Fin 2)))
          = Fin pi
      \<and> phi (relativePosition [Fin 0, Fin 0, Fin (- 4000)] (sceneOptions (Fin 4000) (Fin 2)))
          = Fin 0
      \<and> props r ''normalizedDistance'' = Some (JNumber (Fin 1))
      \<and> props r ''radarPosition'' = Some (JArray [Fin 0, Fin 0, Fin (- 2)])
      \<and> snd (HeadingIndicator (Fin 2)) = [Fin 0, Fin (2 / 1000), Fin (- (3 / 10))]"
  using contact_at_range_on_negative_z
    [of station_1 4000 "sceneOptions (Fin 4000) (Fin 2)" 2]
  by (auto simp add: station_1_def sceneOptions_simps)

section \<open>The two copies of the transform\<close>

text \<open>
  Claim C8 says that, called with \<open>playerPosition = [0, 0, 0]\<close> and the identity
  quaternion, the main component's transform returns the same \<open>radarPosition\<close>,
  \<open>basePosition\<close> and \<open>normalizedDistance\<close> as the demo's copy for every contact.
  With \<open>shipRelative\<close> set the main copy still rotates the relative position by the
  inverted identity quaternion \<open>(-0, -0, -0, 1)\<close>, which turns the negative zero of
  the contact \<open>[0, 5000, -0]\<close> into a positive one: the main copy computes
  \<open>theta = atan2(0, 0) = 0\<close> and \<open>radarZ = 1\<close>, the demo's copy
  \<open>theta = atan2(0, -0) = \<pi>\<close> and \<open>radarZ = -1\<close>.
\<close>

theorem copies_disagree_counterexample:
  "transformToRadarSpace \<lparr> position = Some [Fin 0, Fin 5000, NegZero], props = Map.empty \<rparr>
     (sceneOptions (Fin 5000) (Fin 1))
   = Inr \<lparr> position = Some [Fin 0, Fin 5000, NegZero],
         props = [''radarPosition'' \<mapsto> JArray [Fin 0, Fin (1 / 2), Fin 1],
                  ''basePosition'' \<mapsto> JArray [Fin 0, Fin 0, Fin 1],
                  ''normalizedDistance'' \<mapsto> JNumber (Fin 1),
                  ''isAbove'' \<mapsto> JBoolean True] \<rparr>
   \<and> demo_transformToRadarSpace
       \<lparr> position = Some [Fin 0, Fin 5000, NegZero], props = Map.empty \<rparr>
       (sceneOptions (Fin 5000) (Fin 1))
   = Inr \<lparr> position = Some [Fin 0, Fin 5000, NegZero],
         props = [''radarPosition'' \<mapsto> JArray [Fin 0, Fin (1 / 2), Fin (- 1)],
                  ''basePosition'' \<mapsto> JArray [Fin 0, Fin 0, Fin (- 1)],
                  ''normalizedDistance'' \<mapsto> JNumber (Fin 1)] \<rparr>"
proof
  have rel: "relativePosition [Fin 0, Fin 5000, NegZero] (sceneOptions (Fin 5000) (Fin 1))
      = (Fin 0, Fin 5000, Fin 0)"
    by (simp add: relativePosition_def js_index_triple sceneOptions_simps applyQuaternion_def
        invert_def Quaternion_def Let_def js_sub_def js_eval)
  have nd: "normalizedDist (Fin 0, Fin 5000, Fin 0) (Fin 5000) = Fin 1"
    by (simp add: normalizedDist_finite)
  have az: "theta (Fin 0, Fin 5000, Fin 0) = Fin 0"
    by (simp add: theta_def js_atan2_Fin)
  have el: "phi (Fin 0, Fin 5000, Fin 0) = Fin (pi / 2)"
    by (simp add: phi_def horizontalDist_finite js_atan2_Fin atan2_simps)
  show "transformToRadarSpace \<lparr> position = Some [Fin 0, Fin 5000, NegZero], props = Map.empty \<rparr>
     (sceneOptions (Fin 5000) (Fin 1))
   = Inr \<lparr> position = Some [Fin 0, Fin 5000, NegZero],
         props = [''radarPosition'' \<mapsto> JArray [Fin 0, Fin (1 / 2), Fin 1],
                  ''basePosition'' \<mapsto> JArray [Fin 0, Fin 0, Fin 1],
                  ''normalizedDistance'' \<mapsto> JNumber (Fin 1),
                  ''isAbove'' \<mapsto> JBoolean True] \<rparr>"
    by (subst transform_result [OF _ rel refl])
       (simp_all add: sceneOptions_simps nd az el js_mul_Fin_nonneg)
  have nd': "normalizedDist (Fin 0, Fin 5000, NegZero) (Fin 5000) = Fin 1"
    by (simp add: normalizedDist_finite)
  have az': "theta (Fin 0, Fin 5000, NegZero) = Fin pi"
    by (simp add: theta_def js_atan2_def)
  have el': "phi (Fin 0, Fin 5000, NegZero) = Fin (pi / 2)"
    by (simp add: phi_def horizontalDist_finite js_atan2_Fin atan2_simps)
  show "demo_transformToRadarSpace
       \<lparr> position = Some [Fin 0, Fin 5000, NegZero], props = Map.empty \<rparr>
       (sceneOptions (Fin 5000) (Fin 1))
   = Inr \<lparr> position = Some [Fin 0, Fin 5000, NegZero],
         props = [''radarPosition'' \<mapsto> JArray [Fin 0, Fin (1 / 2), Fin (- 1)],
                  ''basePosition'' \<mapsto> JArray [Fin 0, Fin 0, Fin (- 1)],
                  ''normalizedDistance'' \<mapsto> JNumber (Fin 1)] \<rparr>"
    by (subst demo_transform_result [where pos = "[Fin 0, Fin 5000, NegZero]", OF _ refl refl])
       (simp_all add: sceneOptions_simps js_index_triple nd' az' el' js_eval)
qed

text \<open>
  Claim C8 as amended. Called with \<open>playerPosition = [0, 0, 0]\<close> and the identity
  quaternion \<open>[0, 0, 0, 1]\<close>, the two copies return the same \<open>radarPosition\<close>,
  \<open>basePosition\<close> and \<open>normalizedDistance\<close>, for every \<open>maxRange\<close> and
  \<open>radarRadius\<close>: without \<open>shipRelative\<close> for every contact that has a position,
  and with \<open>shipRelative\<close> for every contact none of whose three coordinates is a
  negative zero or an infinity. The demo's result is then the main copy's result without
  the \<open>isAbove\<close> it wrote.
\<close>

theorem copies_agree:
  assumes "position c = Some pos"
    and "the_playerPosition opts = [Fin 0, Fin 0, Fin 0]"
    and "the_playerQuaternion opts = [Fin 0, Fin 0, Fin 0, Fin 1]"
    and "the_shipRelative opts \<longrightarrow> (\<forall>i<3. js_index pos i \<notin> {NegZero, PosInf, NegInf})"
  shows "\<exists>r r'. transformToRadarSpace c opts = Inr r
      \<and> demo_transformToRadarSpace c opts = Inr r'
      \<and> props r ''radarPosition'' = props r' ''radarPosition''
      \<and> props r ''basePosition'' = props r' ''basePosition''
      \<and> props r ''normalizedDistance'' = props r' ''normalizedDistance''
      \<and> props r' ''radarPosition'' \<noteq> None \<and> props r' ''basePosition'' \<noteq> None
      \<and> props r' ''normalizedDistance'' \<noteq> None
      \<and> (\<exists>b. r' = r\<lparr> props := (props r)(''isAbove'' := props c ''isAbove'') \<rparr>
             \<and> props r ''isAbove'' = Some (JBoolean b))"
proof -
  let ?p = "(js_index pos 0, js_index pos 1, js_index pos 2)"
  note demo = demo_transform_result [OF assms(1) refl refl, of opts]
  have same: ?thesis if rel: "relativePosition pos opts = ?p"
    unfolding transform_result [OF assms(1) rel refl] demo
    by (intro exI conjI, rule refl, rule refl)
       (simp_all add: undo_isAbove undo_isAbove_set del: fun_upd_apply, simp_all)
  show ?thesis
  proof (cases "the_shipRelative opts")
    case False
    with assms(2) have "relativePosition pos opts = ?p"
      by (rule relativePosition_world_axes)
    then show ?thesis by (rule same)
  next
    case True
    with assms(4) have ok: "js_index pos 0 \<notin> {NegZero, PosInf, NegInf}"
      "js_index pos 1 \<notin> {NegZero, PosInf, NegInf}" "js_index pos 2 \<notin> {NegZero, PosInf, NegInf}"
      by simp_all
    show ?thesis
    proof (cases "js_index pos 0 = NaN \<or> js_index pos 1 = NaN \<or> js_index pos 2 = NaN")
      case False
      then obtain x y z where "js_index pos 0 = Fin x" "js_index pos 1 = Fin y"
        "js_index pos 2 = Fin z"
        using ok [THEN Fin_or_NaN] by blast
      then have "relativePosition pos opts = ?p"
        using relativePosition_scene_Fin [OF assms(2,3)] by simp
      then show ?thesis by (rule same)
    next
      case nan: True
      obtain b d where rel: "relativePosition pos opts = (NaN, b, d)"
        using relativePosition_scene_NaN [OF assms(2,3) True nan] by blast
      have nd: "normalizedDist (NaN, b, d) (the_maxRange opts) = NaN"
        by (simp add: normalizedDist_NaN)
      have nd': "normalizedDist ?p (the_maxRange opts) = NaN"
        using nan by (simp add: normalizedDist_NaN)
      show ?thesis
        unfolding transform_result [OF assms(1) rel refl] demo nd nd'
        by (intro exI conjI, rule refl, rule refl)
           (simp_all add: undo_isAbove undo_isAbove_set del: fun_upd_apply, simp_all)
    qed
  qed
qed

theorem copies_agree_witness:
  "\<exists>r r'. transformToRadarSpace hostile_1 (sceneOptions (Fin 5000) (Fin 1)) = Inr r
      \<and> demo_transformToRadarSpace hostile_1 (sceneOptions (Fin 5000) (Fin 1)) = Inr r'
      \<and> props r ''radarPosition'' = props r' ''radarPosition''
      \<and> props r ''basePosition'' = props r' ''basePosition''
      \<and> props r ''normalizedDistance'' = props r' ''normalizedDistance''
      \<and> props r' ''radarPosition'' \<noteq> None \<and> props r' ''basePosition'' \<noteq> None
      \<and> props r' ''normalizedDistance'' \<noteq> None
      \<and> (\<exists>b. r' = r\<lparr> props := (props r)(''isAbove'' := None) \<rparr>
             \<and> props r ''isAbove'' = Some (JBoolean b))"
  using copies_agree [of hostile_1 "[Fin 2000, Fin 800, Fin 1500]"
      "sceneOptions (Fin 5000) (Fin 1)"]
  by (simp add: hostile_1_def sceneOptions_simps js_index_def less_Suc_eq numeral_3_eq_3)

section \<open>The properties the transform leaves alone\<close>

text \<open>
  Claim C9. The transform returns the input contact with only \<open>radarPosition\<close>,
  \<open>basePosition\<close>, \<open>normalizedDistance\<close> and \<open>isAbove\<close> added or replaced
  (the demo's copy: the first three); \<open>position\<close> and every other property, such as
  \<open>id\<close>, \<open>type\<close> and \<open>selected\<close>, are in the returned object unchanged,
  and it has no further properties.
\<close>

theorem other_properties_unchanged:
  assumes "position c = Some pos"
  shows "\<exists>r r'. transformToRadarSpace c opts = Inr r \<and> demo_transformToRadarSpace c opts = Inr r'
      \<and> position r = position c \<and> position r' = position c
      \<and> (\<forall>k. k \<notin> {''radarPosition'', ''basePosition'', ''normalizedDistance'', ''isAbove''}
            \<longrightarrow> props r k = props c k)
      \<and> (\<forall>k. k \<notin> {''radarPosition'', ''basePosition'', ''normalizedDistance''}
            \<longrightarrow> props r' k = props c k)
      \<and> dom (props r) = dom (props c)
            \<union> {''radarPosition'', ''basePosition'', ''normalizedDistance'', ''isAbove''}
      \<and> dom (props r') = dom (props c)
            \<union> {''radarPosition'', ''basePosition'', ''normalizedDistance''}"
proof -
  obtain v1 v2 v3 v4 where r: "transformToRadarSpace c opts =
      Inr (c\<lparr> props := (props c)(''radarPosition'' \<mapsto> v1, ''basePosition'' \<mapsto> v2,
           ''normalizedDistance'' \<mapsto> v3, ''isAbove'' \<mapsto> v4) \<rparr>)"
    using transform_shape [OF assms] by blast
  obtain w1 w2 w3 where r': "demo_transformToRadarSpace c opts =
      Inr (c\<lparr> props := (props c)(''radarPosition'' \<mapsto> w1, ''basePosition'' \<mapsto> w2,
           ''normalizedDistance'' \<mapsto> w3) \<rparr>)"
    using demo_transform_shape [OF assms] by blast
  let ?r = "c\<lparr> props := (props c)(''radarPosition'' \<mapsto> v1, ''basePosition'' \<mapsto> v2,
           ''normalizedDistance'' \<mapsto> v3, ''isAbove'' \<mapsto> v4) \<rparr>"
  let ?r' = "c\<lparr> props := (props c)(''radarPosition'' \<mapsto> w1, ''basePosition'' \<mapsto> w2,
           ''normalizedDistance'' \<mapsto> w3) \<rparr>"
  have "position ?r = position c" "position ?r' = position c"
    by simp_all
  moreover have "\<forall>k. k \<notin> {''radarPosition'', ''basePosition'', ''normalizedDistance'', ''isAbove''}
      \<longrightarrow> props ?r k = props c k"
    by (simp add: other_key_four_updates del: fun_upd_apply)
  moreover have "\<forall>k. k \<notin> {''radarPosition'', ''basePosition'', ''normalizedDistance''}
      \<longrightarrow> props ?r' k = props c k"
    by (simp add: other_key_three_updates del: fun_upd_apply)
  moreover have "dom (props ?r) = dom (props c)
      \<union> {''radarPosition'', ''basePosition'', ''normalizedDistance'', ''isAbove''}"
    by (simp add: dom_four_updates del: fun_upd_apply dom_fun_upd)
  moreover have "dom (props ?r') = dom (props c)
      \<union> {''radarPosition'', ''basePosition'', ''normalizedDistance''}"
    by (simp add: dom_three_updates del: fun_upd_apply dom_fun_upd)
  ultimately show ?thesis
    using r r' by blast
qed

theorem other_properties_unchanged_witness:
  "\<exists>r r'. transformToRadarSpace station_1 (sceneOptions (Fin 5000) (Fin 1)) = Inr r
      \<and> demo_transformToRadarSpace station_1 (sceneOptions (Fin 5000) (Fin 1)) = Inr r'
      \<and> position r = Some [Fin 0, Fin 0, Fin (- 4000)]
      \<and> position r' = Some [Fin 0, Fin 0, Fin (- 4000)]
      \<and> props r ''id'' = Some (JString ''station-1'')
      \<and> props r ''type'' = Some (JString ''station'')
      \<and> props r ''selected'' = Some (JBoolean True)
      \<and> props r' ''id'' = Some (JString ''station-1'')
      \<and> props r' ''type'' = Some (JString ''station'')
      \<and> props r' ''selected'' = Some (JBoolean True)"
proof -
  have pos: "position station_1 = Some [Fin 0, Fin 0, Fin (- 4000)]"
    by (simp add: station_1_def)
  note frame = other_properties_unchanged [OF pos, of "sceneOptions (Fin 5000) (Fin 1)"]
  from frame obtain r where "\<exists>r'. transformToRadarSpace station_1 (sceneOptions (Fin 5000) (Fin 1)) = Inr r
      \<and> demo_transformToRadarSpace station_1 (sceneOptions (Fin 5000) (Fin 1)) = Inr r'
      \<and> position r = position station_1 \<and> position r' = position station_1
      \<and> (\<forall>k. k \<notin> {''radarPosition'', ''basePosition'', ''normalizedDistance'', ''isAbove''}
            \<longrightarrow> props r k = props station_1 k)
      \<and> (\<forall>k. k \<notin> {''radarPosition'', ''basePosition'', ''normalizedDistance''}
            \<longrightarrow> props r' k = props station_1 k)
      \<and> dom (props r) = dom (props station_1)
            \<union> {''radarPosition'', ''basePosition'', ''normalizedDistance'', ''isAbove''}
      \<and> dom (props r') = dom (props station_1)
            \<union> {''radarPosition'', ''basePosition'', ''normalizedDistance''}" ..
  then obtain r' where all: "transformToRadarSpace station_1 (sceneOptions (Fin 5000) (Fin 1)) = Inr r
      \<and> demo_transformToRadarSpace station_1 (sceneOptions (Fin 5000) (Fin 1)) = Inr r'
      \<and> position r = position station_1 \<and> position r' = position station_1
      \<and> (\<forall>k. k \<notin> {''radarPosition'', ''basePosition'', ''normalizedDistance'', ''isAbove''}
            \<longrightarrow> props r k = props station_1 k)
      \<and> (\<forall>k. k \<notin> {''radarPosition'', ''basePosition'', ''normalizedDistance''}
            \<longrightarrow> props r' k = props station_1 k)
      \<and> dom (props r) = dom (props station_1)
            \<union> {''radarPosition'', ''basePosition'', ''normalizedDistance'', ''isAbove''}
      \<and> dom (props r') = dom (props station_1)
            \<union> {''radarPosition'', ''basePosition'', ''normalizedDistance''}" ..
  note res = all [THEN conjunct1]
  note res' = all [THEN conjunct2, THEN conjunct1]
  note p = all [THEN conjunct2, THEN conjunct2, THEN conjunct1]
  note p' = all [THEN conjunct2, THEN conjunct2, THEN conjunct2, THEN conjunct1]
  note k = all [THEN conjunct2, THEN conjunct2, THEN conjunct2, THEN conjunct2, THEN conjunct1,
      rule_format]
  note k' = all [THEN conjunct2, THEN conjunct2, THEN conjunct2, THEN conjunct2, THEN conjunct2,
      THEN conjunct1, rule_format]
  have "props r ''id'' = Some (JString ''station-1'')"
    by (subst k) (simp_all add: station_1_def)
  moreover have "props r ''type'' = Some (JString ''station'')"
    by (subst k) (simp_all add: station_1_def)
  moreover have "props r ''selected'' = Some (JBoolean True)"
    by (subst k) (simp_all add: station_1_def)
  moreover have "props r' ''id'' = Some (JString ''station-1'')"
    by (subst k') (simp_all add: station_1_def)
  moreover have "props r' ''type'' = Some (JString ''station'')"
    by (subst k') (simp_all add: station_1_def)
  moreover have "props r' ''selected'' = Some (JBoolean True)"
    by (subst k') (simp_all add: station_1_def)
  moreover have "position r = Some [Fin 0, Fin 0, Fin (- 4000)]"
    "position r' = Some [Fin 0, Fin 0, Fin (- 4000)]"
    using p p' pos by simp_all
  ultimately show ?thesis
    using res res' by (intro exI [of _ r] exI [of _ r'] conjI)
qed

section \<open>The bound on the elevation\<close>

text \<open>
  Claim C10. For every input with finite position and \<open>maxRange > 0\<close>,
  \<open>|radarY| \<le> 0.5 * normalizedDistance * radarRadius\<close> and hence
  \<open>|radarY| \<le> 0.5 * radarRadius\<close>: the elevation of the display point never exceeds
  half the display radius, while its distance from the centre can exceed
  \<open>radarRadius\<close> (\<open>radar_point_beyond_radius\<close>). An input is a contact and an
  observer with finite coordinates and a display radius, which is not negative.
\<close>

theorem elevation_bound:
  assumes "position c = Some [x, y, z]"
    and "the_playerPosition opts = [px, py, pz]"
    and "the_playerQuaternion opts = [qa, qb, qc, qd]"
    and "list_all isFinite [x, y, z, px, py, pz, qa, qb, qc, qd]"
    and "the_maxRange opts = Fin m" and "0 < m"
    and "the_radarRadius opts = Fin R" and "0 \<le> R"
  shows "\<exists>r nd X Y Z. transformToRadarSpace c opts = Inr r
      \<and> props r ''normalizedDistance'' = Some (JNumber (Fin nd))
      \<and> props r ''radarPosition'' = Some (JArray [X, Y, Z])
      \<and> isFinite X \<and> isFinite Y \<and> isFinite Z
      \<and> \<bar>num_val Y\<bar> \<le> (1 / 2) * nd * R \<and> \<bar>num_val Y\<bar> \<le> (1 / 2) * R"
proof -
  obtain a b c' where rel: "relativePosition [x, y, z] opts = (a, b, c')"
    and fin: "isFinite a" "isFinite b" "isFinite c'"
    using relativePosition_finite [OF assms(2,3,4)] by blast
  obtain r where r: "transformToRadarSpace c opts = Inr r"
    using transform_returns [OF assms(1)] by blast
  let ?s = "num_val a * num_val a + num_val b * num_val b + num_val c' * num_val c'"
  let ?nd = "min (sqrt ?s / m) 1"
  have s: "0 \<le> ?s" by simp
  have nd0: "0 \<le> ?nd" and nd1: "?nd \<le> 1"
    using nd_bounds(1,2) [OF assms(6) s] by blast+
  have nd: "props r ''normalizedDistance'' = Some (JNumber (Fin ?nd))"
    using transform_normalizedDistance [OF assms(1) r] assms(5,6) fin
    by (simp add: rel normalizedDist_finite)
  obtain X Y Z where rp: "props r ''radarPosition'' = Some (JArray [X, Y, Z])"
    and XYZ: "isFinite X" "isFinite Y" "isFinite Z"
    and Y: "num_val Y = ?nd * sin (num_val (phi (a, b, c'))) * R * (1 / 2)"
    using radarPosition_finite [OF assms(1) r rel fin assms(5,6,7) refl] by blast
  have b1: "\<bar>num_val Y\<bar> \<le> (1 / 2) * ?nd * R"
    unfolding Y using nd0 assms(8) by (rule vertical_bound)
  moreover have "(1 / 2) * ?nd * R \<le> (1 / 2) * R"
    using mult_right_mono [OF nd1 assms(8)] by simp
  then have "\<bar>num_val Y\<bar> \<le> (1 / 2) * R"
    using b1 by linarith
  ultimately show ?thesis using r nd rp XYZ by blast
qed

theorem elevation_bound_witness:
  "\<exists>r nd X Y Z. transformToRadarSpace hostile_1 (sceneOptions (Fin 5000) (Fin 1)) = Inr r
      \<and> props r ''normalizedDistance'' = Some (JNumber (Fin nd))
      \<and> props r ''radarPosition'' = Some (JArray [X, Y, Z])
      \<and> isFinite X \<and> isFinite Y \<and> isFinite Z
      \<and> \<bar>num_val Y\<bar> \<le> (1 / 2) * nd * 1 \<and> \<bar>num_val Y\<bar> \<le> (1 / 2) * 1"
  using elevation_bound
    [of hostile_1 "Fin 2000" "Fin 800" "Fin 1500" "sceneOptions (Fin 5000) (Fin 1)"
        "Fin 0" "Fin 0" "Fin 0" "Fin 0" "Fin 0" "Fin 0" "Fin 1" 5000 1]
  by (simp add: hostile_1_def sceneOptions_simps)

end
